theory Spec2Isabelle
  imports Main "HOL-Library.Word"
begin

section \<open>Strings: the helpers of Go's \<open>strings\<close> and \<open>fmt\<close> packages that the code calls\<close>

text \<open>
  Go strings are byte sequences; they are modelled as \<open>string\<close> (a list of bytes).
  \<open>strings.HasPrefix\<close>, \<open>strings.HasSuffix\<close>, \<open>strings.TrimSuffix\<close> and
  \<open>strings.TrimPrefix\<close> compare and cut byte-wise.
\<close>

definition HasPrefix :: "string \<Rightarrow> string \<Rightarrow> bool" where
  "HasPrefix s p = (take (length p) s = p)"

definition HasSuffix :: "string \<Rightarrow> string \<Rightarrow> bool" where
  "HasSuffix s p = (length p \<le> length s \<and> drop (length s - length p) s = p)"

definition TrimSuffix :: "string \<Rightarrow> string \<Rightarrow> string" where
  "TrimSuffix s p = (if HasSuffix s p then take (length s - length p) s else s)"

definition TrimPrefix :: "string \<Rightarrow> string \<Rightarrow> string" where
  "TrimPrefix s p = (if HasPrefix s p then drop (length p) s else s)"

text \<open>The line terminator \<open>'\n'\<close>.\<close>

definition newline :: string where
  "newline = [CHR 0x0A]"

text \<open>
  \<open>%d\<close> of \<open>fmt.Sprintf\<close>: the decimal digits of a number, most significant first,
  with a leading minus sign for a negative one.
\<close>

fun showNat :: "nat \<Rightarrow> string" where
  "showNat n = (if n < 10 then [char_of (48 + n)]
                else showNat (n div 10) @ [char_of (48 + n mod 10)])"

declare showNat.simps [simp del]

definition showInt :: "int \<Rightarrow> string" where
  "showInt i = (if i < 0 then CHR ''-'' # showNat (nat (- i)) else showNat (nat i))"

section \<open>The log multiplexer (\<open>logFromContainer\<close>, external/controller.go)\<close>

text \<open>The struct \<open>logInfo\<close> that a Docker JSON log line is unmarshalled into.\<close>

record logInfo =
  Time :: string
  Level :: string
  Msg :: string
  Source :: string
  JobId :: string
  RunID :: string
  AgentID :: string
  ProjectID :: string
  ProjectOwnerID :: string

text \<open>
  The chain of \<open>fmt.Sprintf\<close> calls of lines 497 to 515: the three leading pairs, then
  each further field, in the order of the \<open>if\<close> statements, when it is not empty.
\<close>

definition flattenLogInfo :: "logInfo \<Rightarrow> string" where
  "flattenLogInfo ls =
    (let str1 = ''time='' @ Time ls @ '' level='' @ Level ls @ '' msg='' @ Msg ls;
         str1 = (if AgentID ls \<noteq> [] then str1 @ '' AgentID='' @ AgentID ls else str1);
         str1 = (if JobId ls \<noteq> [] then str1 @ '' JobId='' @ JobId ls else str1);
         str1 = (if RunID ls \<noteq> [] then str1 @ '' RunID='' @ RunID ls else str1);
         str1 = (if ProjectID ls \<noteq> [] then str1 @ '' ProjectID='' @ ProjectID ls else str1);
         str1 = (if ProjectOwnerID ls \<noteq> []
                 then str1 @ '' ProjectOwnerID='' @ ProjectOwnerID ls else str1);
         str1 = (if Source ls \<noteq> [] then str1 @ '' Source='' @ Source ls else str1)
     in str1)"

text \<open>
  One pass of the reader loop over a line \<open>str\<close> that \<open>ReadString('\n')\<close> returned
  (lines 490 to 518). \<open>json.Unmarshal\<close> belongs to Go's standard library; it is the
  parameter \<open>unmarshal\<close>, \<open>None\<close> when it returns an error.
\<close>

definition formatLine :: "(string \<Rightarrow> logInfo option) \<Rightarrow> string \<Rightarrow> string" where
  "formatLine unmarshal str0 =
    (let str = TrimSuffix str0 newline in
     if HasPrefix str ''{'' \<and> HasSuffix str ''}'' then
       (case unmarshal str of
          Some ls \<Rightarrow> flattenLogInfo ls
        | None \<Rightarrow> str)
     else str)"

text \<open>
  Where a formatted line goes (lines 520 to 532): appended with a line terminator to the
  file of the container when a logger path is configured and the file opens, else
  handed to \<open>Logger.Printf\<close> behind the container's name.
\<close>

datatype sink =
    FileAppend string string
  | ConsolePrintf string

definition routeLine :: "string \<Rightarrow> string \<Rightarrow> (string \<Rightarrow> bool) \<Rightarrow> string \<Rightarrow> sink list" where
  "routeLine loggerPath containerName openOk str =
    (if loggerPath \<noteq> [] then
       (let filename = loggerPath @ ''/'' @ containerName @ ''.log'' in
        if openOk filename then [FileAppend filename (str @ newline)] else [])
     else [ConsolePrintf (containerName @ '': '' @ str)])"

text \<open>
  The reader loop: the lines read before \<open>ReadString\<close> reports an error (the end of the
  stream), each formatted and routed.
\<close>

fun readerLoop ::
  "(string \<Rightarrow> logInfo option) \<Rightarrow> string \<Rightarrow> string \<Rightarrow> (string \<Rightarrow> bool) \<Rightarrow> string list \<Rightarrow> sink list"
where
  "readerLoop unmarshal loggerPath containerName openOk [] = []"
| "readerLoop unmarshal loggerPath containerName openOk (l # ls) =
     routeLine loggerPath containerName openOk (formatLine unmarshal l)
       @ readerLoop unmarshal loggerPath containerName openOk ls"




section \<open>Durations: \<open>time.ParseDuration\<close> on the strings the code builds\<close>

text \<open>
  \<open>time.ParseDuration\<close> and its helper \<open>leadingInt\<close> belong to Go's standard
  library. They are written out here after the library's text, because what \<open>Provision\<close>
  takes as its deadline is what they return. A \<open>Duration\<close> is a count of nanoseconds in
  an \<open>int64\<close>; the parser accumulates in \<open>uint64\<close> and checks for overflow before each
  multiplication, so the values are natural numbers here and the one addition that can
  wrap is taken modulo \<open>2 ^ 64\<close>. A fractional part is computed by the library in
  \<open>float64\<close>; it is outside this model (\<open>FractionalPart\<close>), and \<open>%d\<close> never prints one.
\<close>

datatype durError = InvalidDuration | MissingUnit | UnknownUnit string | FractionalPart

definition isDigit :: "char \<Rightarrow> bool" where
  "isDigit c = ((48::nat) \<le> of_char c \<and> of_char c \<le> (57::nat))"

fun leadingInt_loop :: "nat \<Rightarrow> string \<Rightarrow> (nat \<times> string) option" where
  "leadingInt_loop x [] = Some (x, [])"
| "leadingInt_loop x (c # s) =
    (if \<not> isDigit c then Some (x, c # s)
     else if x > 2 ^ 63 div 10 then None
     else (let x' = x * 10 + of_char c - 48 in
           if x' > 2 ^ 63 then None else leadingInt_loop x' s))"

definition leadingInt :: "string \<Rightarrow> (nat \<times> string) option" where
  "leadingInt s = leadingInt_loop 0 s"

definition unitMap :: "string \<Rightarrow> nat option" where
  "unitMap u =
    (if u = ''ns'' then Some 1
     else if u = ''us'' then Some 1000
     else if u = [CHR 0xC2, CHR 0xB5, CHR ''s''] then Some 1000
     else if u = [CHR 0xCE, CHR 0xBC, CHR ''s''] then Some 1000
     else if u = ''ms'' then Some 1000000
     else if u = ''s'' then Some 1000000000
     else if u = ''m'' then Some 60000000000
     else if u = ''h'' then Some 3600000000000
     else None)"

function ParseDuration_loop :: "nat \<Rightarrow> string \<Rightarrow> durError + nat" where
  "ParseDuration_loop d s =
    (if s = [] then Inr d
     else if \<not> (hd s = CHR ''.'' \<or> isDigit (hd s)) then Inl InvalidDuration
     else case leadingInt s of
        None \<Rightarrow> Inl InvalidDuration
      | Some (v, s1) \<Rightarrow>
         if s1 \<noteq> [] \<and> hd s1 = CHR ''.'' then Inl FractionalPart
         else if length s1 = length s then Inl InvalidDuration
         else (let i = length (takeWhile (\<lambda>c. \<not> (c = CHR ''.'' \<or> isDigit c)) s1) in
           if i = 0 then Inl MissingUnit
           else case unitMap (take i s1) of
              None \<Rightarrow> Inl (UnknownUnit (take i s1))
            | Some unit \<Rightarrow>
               if v > 2 ^ 63 div unit then Inl InvalidDuration
               else (let d' = (d + v * unit) mod 2 ^ 64 in
                 if d' > 2 ^ 63 then Inl InvalidDuration
                 else ParseDuration_loop d' (drop i s1))))"
  by pat_completeness auto
termination
proof (relation "measure (\<lambda>(d, s). length s)")
  show "wf (measure (\<lambda>(d, s). length s))" by simp
next
  fix d :: nat and s :: string and x2 x y xa x2a xb
  assume a: "leadingInt s = Some x2" "(x, y) = x2"
    and i: "xa = length (takeWhile (\<lambda>c. \<not> (c = CHR ''.'' \<or> isDigit c)) y)" "xa \<noteq> 0"
  have len: "leadingInt_loop a t = Some (v, r) \<Longrightarrow> length r \<le> length t" for a t v r
    by (induction a t rule: leadingInt_loop.induct) (auto simp: Let_def split: if_splits)
  from a have "length y \<le> length s"
    using len [of 0 s x y] by (simp add: leadingInt_def)
  moreover from i have "0 < xa" "xa \<le> length y"
    by (simp_all add: length_takeWhile_le)
  ultimately have "length (drop xa y) < length s" by simp
  then show "((xb, drop xa y), d, s) \<in> measure (\<lambda>(d, s). length s)"
    by simp
qed

declare ParseDuration_loop.simps [simp del]

definition ParseDuration :: "string \<Rightarrow> durError + int" where
  "ParseDuration orig =
    (let neg = (orig \<noteq> [] \<and> hd orig = CHR ''-'');
         s = (if orig \<noteq> [] \<and> (hd orig = CHR ''-'' \<or> hd orig = CHR ''+'') then tl orig else orig)
     in if s = ''0'' then Inr 0
        else if s = [] then Inl InvalidDuration
        else case ParseDuration_loop 0 s of
           Inl e \<Rightarrow> Inl e
         | Inr d \<Rightarrow>
            if neg then Inr (- int d)
            else if d > 2 ^ 63 - 1 then Inl InvalidDuration
            else Inr (int d))"

text \<open>\<open>time.Second\<close> and \<open>time.Minute\<close>, in nanoseconds.\<close>

definition Second :: int where
  "Second = 1000000000"

definition Minute :: int where
  "Minute = 60 * Second"

text \<open>
  \<open>int(d.Seconds())\<close>: \<open>Seconds\<close> returns a \<open>float64\<close>, which is exact for a whole
  number of seconds below \<open>2 ^ 53\<close>, and the conversion truncates towards zero.
\<close>

definition secondsOf :: "int \<Rightarrow> int" where
  "secondsOf d = (if d < 0 then - ((- d) div Second) else d div Second)"

section \<open>The lease client (rdd/rdd.go)\<close>

text \<open>
  Modelled from the spec: the enumeration \<open>rddpb.DaemonState\<close> (the generated package
  \<open>rddpb\<close> is not among the sources). The interface section gives the states pending,
  provisioned and error; the code tests for \<open>error\<close> and \<open>provisioned\<close> only, so every
  other state is \<open>DaemonState_other\<close> with the name that \<open>String()\<close> prints.
\<close>

datatype DaemonState = DaemonState_error | DaemonState_provisioned | DaemonState_other string

record rddDetails =
  rddURI :: string
  rddProvisionRequestID :: string

record RDD =
  rddServiceEndpoint :: string
  rddProvisionTimeout :: "64 word"
  runID :: string
  details :: "rddDetails option"

text \<open>
  The field \<open>rddDetails *rddDetails\<close> is \<open>details\<close>: \<open>None\<close> is the nil pointer.
  The messages that the client logs and returns, each with the values that
  \<open>fmt.Sprintf\<close> puts into it.
\<close>

datatype rddMsg =
    FailOnProvision string string string
  | InvalidProvisioningResponse string string
  | TimeOut string string int
  | GetStatusError string string
  | InvalidRDDUrl string string
  | GetStatusRetrying string string string
  | TimeoutParseWarning int durError
  | ProvisioningStatus string string DaemonState
  | DeprovisionIgnored string string string
  | NoDockerClient string string
  | NotAWorkingDocker string string
  | TransportError string
  | UnidentifiableVersion string
  | Connected string string string

text \<open>What the client does to the outside, in the order it does it.\<close>

datatype rddAction =
    CallProvision string
  | CallGetStatus string
  | CallDeprovision string
  | CallServerVersion string
  | LogError rddMsg
  | LogWarning rddMsg
  | LogInfo rddMsg

text \<open>
  The collaborators: the three RPCs of the provisioning service and the Docker client
  that \<open>verify\<close> opens. An RPC answers with an error text (\<open>Inl\<close>, or \<open>Some\<close> where
  there is no other result) or with its result. \<open>dockerServerVersion\<close> answers with
  an error, flagged when its type is \<open>client.errConnectionFailed\<close>, or with the version
  and the API version.
\<close>

record rddWorld =
  rpcProvision :: "string \<Rightarrow> string + string"
  rpcDeprovision :: "string \<Rightarrow> string option"
  dockerNewClient :: "string \<Rightarrow> string option"
  dockerServerVersion :: "string \<Rightarrow> (bool \<times> string) + (string \<times> string)"

text \<open>A Go call returns, or panics (here: on a nil pointer dereference).\<close>

datatype 'a go = Panic string | Return 'a

text \<open>\<open>New\<close> (lines 55 to 79), after the connection is made: no lease details yet.\<close>

definition New :: "string \<Rightarrow> 64 word \<Rightarrow> string \<Rightarrow> RDD" where
  "New endpoint t rid =
     \<lparr>rddServiceEndpoint = endpoint, rddProvisionTimeout = t, runID = rid, details = None\<rparr>"

text \<open>\<open>verify\<close> (lines 161 to 181).\<close>

definition verify :: "rddWorld \<Rightarrow> RDD \<Rightarrow> (rddMsg option \<times> rddAction list) go" where
  "verify w rdd =
    (case details rdd of
       None \<Rightarrow> Panic ''nil pointer dereference''
     | Some det \<Rightarrow>
        (let uri = rddURI det in
         case dockerNewClient w uri of
           Some err \<Rightarrow> Return (Some (NoDockerClient uri err), [])
         | None \<Rightarrow>
            (case dockerServerVersion w uri of
               Inl (connectionFailed, err) \<Rightarrow>
                 if connectionFailed
                 then Return (Some (NotAWorkingDocker uri err), [CallServerVersion uri])
                 else Return (Some (TransportError err), [CallServerVersion uri])
             | Inr (version, apiVersion) \<Rightarrow>
                 if version = [] then Return (Some (UnidentifiableVersion uri), [CallServerVersion uri])
                 else Return (None, [CallServerVersion uri, LogInfo (Connected uri version apiVersion)]))))"

text \<open>
  The deadline of the poll loop (lines 99 to 103): the configured \<open>int64\<close> printed with
  \<open>%ds\<close> and parsed, 300 seconds with a warning when the parse fails.
\<close>

definition timeoutThresholdInSeconds :: "64 word \<Rightarrow> int \<times> rddAction list" where
  "timeoutThresholdInSeconds t =
    (case ParseDuration (showInt (sint t) @ ''s'') of
       Inl e \<Rightarrow> (300 * Second, [LogWarning (TimeoutParseWarning (sint t) e)])
     | Inr d \<Rightarrow> (d, []))"

text \<open>
  The older client (\<open>Get\<close>, lines 93 to 97 of the second rdd source) reads the same
  number as minutes, with 5 minutes as its fallback.
\<close>

definition timeoutThresholdInMinutes :: "64 word \<Rightarrow> int \<times> rddAction list" where
  "timeoutThresholdInMinutes t =
    (case ParseDuration (showInt (sint t) @ ''m'') of
       Inl e \<Rightarrow> (5 * Minute, [LogError (TimeoutParseWarning (sint t) e)])
     | Inr d \<Rightarrow> (d, []))"

text \<open>
  The \<open>select\<close> loop of lines 107 to 147 receives from the timeout channel or from the
  ticker. The list of events is what the successive \<open>select\<close>s receive; a tick carries
  the answer that the \<open>GetStatus\<close> call of that tick gets. The loop has not returned
  (\<open>None\<close>) when the events run out.
\<close>

datatype pollEvent =
    TimeoutFired
  | TickFired "string + (DaemonState \<times> string)"

fun pollLoop ::
  "rddWorld \<Rightarrow> int \<Rightarrow> string \<Rightarrow> pollEvent list \<Rightarrow> RDD \<Rightarrow> rddAction list
    \<Rightarrow> ((rddMsg + string) \<times> RDD \<times> rddAction list) go option"
where
  "pollLoop w thr rid [] rdd tr = None"
| "pollLoop w thr rid (TimeoutFired # es) rdd tr =
    (let m = TimeOut (rddServiceEndpoint rdd) (runID rdd) (secondsOf thr)
     in Some (Return (Inl m, rdd, tr @ [LogError m])))"
| "pollLoop w thr rid (TickFired resp # es) rdd tr =
    (let tr1 = tr @ [CallGetStatus rid] in
     case resp of
       Inl err \<Rightarrow>
         pollLoop w thr rid es rdd
           (tr1 @ [LogError (GetStatusRetrying (rddServiceEndpoint rdd) (runID rdd) err)])
     | Inr (currentRDDState, url) \<Rightarrow>
         if currentRDDState = DaemonState_error then
           (let m = GetStatusError (rddServiceEndpoint rdd) (runID rdd)
            in Some (Return (Inl m, rdd, tr1 @ [LogError m])))
         else if currentRDDState = DaemonState_provisioned then
           (if url = [] then
              (let m = InvalidRDDUrl (rddServiceEndpoint rdd) (runID rdd)
               in Some (Return (Inl m, rdd, tr1 @ [LogError m])))
            else
              (let rdd' = rdd\<lparr>details := Some \<lparr>rddURI = url, rddProvisionRequestID = rid\<rparr>\<rparr>
               in case verify w rdd' of
                    Panic p \<Rightarrow> Some (Panic p)
                  | Return (Some err, acts) \<Rightarrow> Some (Return (Inl err, rdd', tr1 @ acts))
                  | Return (None, acts) \<Rightarrow> Some (Return (Inr url, rdd', tr1 @ acts))))
         else
           pollLoop w thr rid es rdd
             (tr1 @ [LogInfo (ProvisioningStatus (runID rdd) (rddServiceEndpoint rdd) currentRDDState)]))"

text \<open>\<open>Provision\<close> (lines 83 to 148).\<close>

definition Provision ::
  "rddWorld \<Rightarrow> pollEvent list \<Rightarrow> RDD \<Rightarrow> ((rddMsg + string) \<times> RDD \<times> rddAction list) go option"
where
  "Provision w events rdd =
    (let tr = [CallProvision (runID rdd)] in
     case rpcProvision w (runID rdd) of
       Inl err \<Rightarrow>
         (let m = FailOnProvision (rddServiceEndpoint rdd) (runID rdd) err
          in Some (Return (Inl m, rdd, tr @ [LogError m])))
     | Inr rddResponseID \<Rightarrow>
         if rddResponseID = [] then
           (let m = InvalidProvisioningResponse (rddServiceEndpoint rdd) (runID rdd)
            in Some (Return (Inl m, rdd, tr @ [LogError m])))
         else
           (case timeoutThresholdInSeconds (rddProvisionTimeout rdd) of
              (thr, warn) \<Rightarrow> pollLoop w thr rddResponseID events rdd (tr @ warn)))"



text \<open>Lease details are absent, or both of their fields are filled.\<close>

definition detailsComplete :: "RDD \<Rightarrow> bool" where
  "detailsComplete rdd =
    (case details rdd of
       None \<Rightarrow> True
     | Some det \<Rightarrow> rddURI det \<noteq> [] \<and> rddProvisionRequestID det \<noteq> [])"

text \<open>
  A \<open>select\<close> after which the loop goes on: a tick whose \<open>GetStatus\<close> call fails, or
  whose state is neither \<open>error\<close> nor \<open>provisioned\<close>; and what such a tick adds to the
  trace.
\<close>

fun keepsPolling :: "pollEvent \<Rightarrow> bool" where
  "keepsPolling TimeoutFired = False"
| "keepsPolling (TickFired (Inl err)) = True"
| "keepsPolling (TickFired (Inr (st, url))) =
     (st \<noteq> DaemonState_error \<and> st \<noteq> DaemonState_provisioned)"

fun tickActions :: "RDD \<Rightarrow> string \<Rightarrow> pollEvent \<Rightarrow> rddAction list" where
  "tickActions rdd rid TimeoutFired = []"
| "tickActions rdd rid (TickFired (Inl err)) =
     [CallGetStatus rid, LogError (GetStatusRetrying (rddServiceEndpoint rdd) (runID rdd) err)]"
| "tickActions rdd rid (TickFired (Inr (st, url))) =
     [CallGetStatus rid, LogInfo (ProvisioningStatus (runID rdd) (rddServiceEndpoint rdd) st)]"

text \<open>Kinds of trace entries.\<close>

fun isCallProvision :: "rddAction \<Rightarrow> bool" where
  "isCallProvision (CallProvision x) = True"
| "isCallProvision a = False"

fun isCallDeprovision :: "rddAction \<Rightarrow> bool" where
  "isCallDeprovision (CallDeprovision x) = True"
| "isCallDeprovision a = False"

fun isCallGetStatus :: "rddAction \<Rightarrow> bool" where
  "isCallGetStatus (CallGetStatus x) = True"
| "isCallGetStatus a = False"

fun isTimeOutLog :: "rddAction \<Rightarrow> bool" where
  "isTimeOutLog (LogError (TimeOut a b c)) = True"
| "isTimeOutLog a = False"

section \<open>The fleet controller (external/controller.go)\<close>

text \<open>
  \<open>strings.Contains\<close>.
\<close>

fun Contains :: "string \<Rightarrow> string \<Rightarrow> bool" where
  "Contains [] sub = (sub = [])"
| "Contains (c # s) sub = (HasPrefix (c # s) sub \<or> Contains s sub)"

text \<open>The handle of a started container, and the parameters of the controller.\<close>

record runnerContainer =
  containerName :: string
  containerID :: string
  containerStatus :: string

record RunnerParams =
  BearerToken :: string
  InstanceName :: string
  GroupName :: string
  ImageName :: string
  OrgID :: string
  AppNames :: string
  OrgList :: string
  Workflows :: string
  StorePath :: string
  LoggerPath :: string
  RunnerCount :: int
  ShutdownFlag :: bool
  Debug :: bool
  Journal :: bool
  AllOption :: bool
  NoWait :: bool
  PollFreq :: int
  DockerEndpoint :: string
  Basename :: string
  containers :: "runnerContainer list"

text \<open>
  What the Docker client library returns, as far as the controller reads it: of
  \<open>docker.Container\<close> the ID, the name and \<open>State.Status\<close>; of \<open>docker.APIContainers\<close>
  the ID and the labels, a Go map, here in the order in which \<open>range\<close> visits it; of
  \<open>docker.APIImages\<close> the repository tags and the creation time.
\<close>

record dockerContainer =
  ID :: string
  Name :: string
  Status :: string

record APIContainers =
  apiID :: string
  Labels :: "(string \<times> string) list"

record APIImages =
  RepoTags :: "string list"
  Created :: int

text \<open>
  The outside of the controller: the operating system and the Docker daemon. A call
  answers with an error text or with its result. What \<open>InspectContainer\<close> answers
  changes as containers start and stop, so it depends on the moment of the call, which
  is the number of actions the controller has taken before it. \<open>w_Start\<close> is
  \<open>exec.Command("docker", args...).Start()\<close>.
\<close>

record dockerWorld =
  w_Hostname :: "string + string"
  w_Getenv :: string
  w_Environ :: "string list"
  w_NewClient :: "string \<Rightarrow> string option"
  w_ListImages :: "string + APIImages list"
  w_InspectImage :: "string \<Rightarrow> string + string"
  w_ListContainers :: "APIContainers list"
  w_InspectContainer :: "nat \<Rightarrow> string \<Rightarrow> string + dockerContainer"
  w_KillContainer :: "string \<Rightarrow> string option"
  w_Start :: "string list \<Rightarrow> string option"

text \<open>What the controller does to the outside, in the order it does it.\<close>

datatype action =
    ExecDocker "string list"
  | Sleep nat
  | ListImages
  | InspectImage string
  | ListContainers
  | InspectContainer string
  | KillContainer string
  | RemoveContainer string
  | GoLogFromContainer string
  | LoggerPrint string
  | LoggerInfo string
  | LoggerDebug string
  | LoggerFatal string

text \<open>
  Modelled from the spec: \<open>Logger.Fatal\<close> of \<open>util.LogEntry\<close> (the package \<open>util\<close> is
  not among the sources). The specification calls a fatal failure process-ending: the
  message is logged and the process terminates, so nothing after the call runs. A
  procedure of the controller ends the process (\<open>Exit\<close>) or returns (\<open>Cont\<close>), in both
  cases with the actions taken so far.
\<close>

datatype run = Exit "action list" | Cont RunnerParams "action list"

text \<open>\<open>getLocalImage\<close> (lines 577 to 617): the newest image with a tag of the runner.\<close>

fun scanTags :: "string list \<Rightarrow> int \<Rightarrow> string \<times> int \<Rightarrow> string \<times> int" where
  "scanTags [] created (imageName, latest) = (imageName, latest)"
| "scanTags (tag # rest) created (imageName, latest) =
    (if Contains tag ''wercker/wercker-runner:external-runner'' \<and> latest < created
     then (tag, created)
     else scanTags rest created (imageName, latest))"

fun scanImages :: "APIImages list \<Rightarrow> string \<times> int \<Rightarrow> string \<times> int" where
  "scanImages [] acc = acc"
| "scanImages (img # images) acc =
     scanImages images (scanTags (RepoTags img) (Created img) acc)"

definition getLocalImage ::
  "dockerWorld \<Rightarrow> RunnerParams \<Rightarrow> action list
    \<Rightarrow> (string + string option) \<times> RunnerParams \<times> action list"
where
  "getLocalImage w cp tr =
    (let tr1 = tr @ [ListImages] in
     case w_ListImages w of
       Inl err \<Rightarrow> (Inl err, cp, tr1)
     | Inr images \<Rightarrow>
        (let imageName = fst (scanImages images ([], 0)) in
         if imageName = [] then (Inr None, cp, tr1)
         else
           (let cp' = cp\<lparr>ImageName := imageName\<rparr>;
                tr2 = tr1 @ [InspectImage imageName] in
            case w_InspectImage w imageName of
              Inl err \<Rightarrow> (Inl err, cp', tr2)
            | Inr img \<Rightarrow> (Inr (Some img), cp', tr2))))"

text \<open>
  The containers of this runner (lines 119 to 131): for each listed container the labels
  are searched for the value \<open>lName\<close>; a match is inspected, and the search of this
  container ends when the inspection succeeds.
\<close>

fun matchLabels ::
  "dockerWorld \<Rightarrow> string \<Rightarrow> string \<Rightarrow> (string \<times> string) list \<Rightarrow> action list
    \<Rightarrow> dockerContainer option \<times> action list"
where
  "matchLabels w lName cid [] tr = (None, tr)"
| "matchLabels w lName cid ((k, label) # rest) tr =
    (if label = lName then
       (case w_InspectContainer w (length tr) cid of
          Inr dc \<Rightarrow> (Some dc, tr @ [InspectContainer cid])
        | Inl err \<Rightarrow> matchLabels w lName cid rest (tr @ [InspectContainer cid]))
     else matchLabels w lName cid rest tr)"

fun collectRunners ::
  "dockerWorld \<Rightarrow> string \<Rightarrow> APIContainers list \<Rightarrow> action list
    \<Rightarrow> dockerContainer list \<times> action list"
where
  "collectRunners w lName [] tr = ([], tr)"
| "collectRunners w lName (c # clist) tr =
    (case matchLabels w lName (apiID c) (Labels c) tr of
       (found, tr1) \<Rightarrow>
         (case collectRunners w lName clist tr1 of
            (runners, tr2) \<Rightarrow>
              ((case found of None \<Rightarrow> runners | Some dc \<Rightarrow> dc # runners), tr2)))"

text \<open>\<open>stripSlashFromName\<close> (lines 424 to 426).\<close>

definition stripSlashFromName :: "string \<Rightarrow> string" where
  "stripSlashFromName name = TrimPrefix name ''/''"

text \<open>\<open>createTheRunnerCommand\<close> (lines 224 to 262); its error result is always nil.\<close>

definition createTheRunnerCommand :: "RunnerParams \<Rightarrow> string \<Rightarrow> string + string list" where
  "createTheRunnerCommand cp name =
    Inr ([''/externalRunner.sh'',
          ''--runner-image='' @ ImageName cp,
          ''--runner-name='' @ name,
          ''--runner-api-token='' @ BearerToken cp]
         @ (if GroupName cp \<noteq> [] then [''--runner-group='' @ GroupName cp] else [])
         @ (if OrgList cp \<noteq> [] then [''--runner-orgs='' @ OrgList cp] else [])
         @ (if AppNames cp \<noteq> [] then [''--runner-apps='' @ AppNames cp] else [])
         @ (if Workflows cp \<noteq> [] then [''--runner-workflows='' @ Workflows cp] else [])
         @ (if StorePath cp \<noteq> [] then [''--runner-store-path='' @ StorePath cp] else [])
         @ (if LoggerPath cp \<noteq> [] then [''--runner-logs-path='' @ LoggerPath cp] else [])
         @ (if Debug cp then [''-d''] else [])
         @ (if Journal cp then [''--journal''] else [])
         @ (if AllOption cp then [''--runner-all''] else [])
         @ (if PollFreq cp > 0 then [''--poll-frequency='' @ showInt (PollFreq cp)] else []))"

text \<open>
  \<open>startTheContainer\<close> (lines 266 to 353). The arguments of \<open>docker run\<close> first; the
  proxy variables of the environment are passed on. \<open>InspectContainer\<close> of the client
  library returns an error or a container, never nil without an error, so the empty loop
  of lines 341 and 342 is not entered; after an error the process has ended before it.
\<close>

definition proxyEnv :: "string \<Rightarrow> string list" where
  "proxyEnv env =
     (if HasPrefix env ''http_proxy'' \<or> HasPrefix env ''HTTP_PROXY'' then [env] else [])
   @ (if HasPrefix env ''https_proxy'' \<or> HasPrefix env ''HTTPS_PROXY'' then [env] else [])
   @ (if HasPrefix env ''no_proxy'' \<or> HasPrefix env ''NO_PROXY'' then [env] else [])"

definition dockerRunArgs :: "dockerWorld \<Rightarrow> RunnerParams \<Rightarrow> string \<Rightarrow> string list \<Rightarrow> string list" where
  "dockerRunArgs w cp name cmd =
    (let labels = [''runner=/wercker-external-runner-'' @ Basename cp]
           @ (if GroupName cp \<noteq> [] then [''runnergroup='' @ GroupName cp] else []);
         volumes = [''/var/lib/wercker:/var/lib/wercker:rw'',
                    ''/var/run/docker.sock:/var/run/docker.sock'']
           @ (if LoggerPath cp \<noteq> [] then [LoggerPath cp @ '':'' @ LoggerPath cp @ '':rw''] else [])
           @ (if StorePath cp \<noteq> [] then [StorePath cp @ '':'' @ StorePath cp @ '':rw''] else []);
         myenv = [''WERCKER_RUNNER_TOKEN='' @ BearerToken cp] @ concat (map proxyEnv (w_Environ w))
     in [''run'', ''--detach'', ''--name'', name]
        @ concat (map (\<lambda>envvar. [''-e'', envvar]) myenv)
        @ concat (map (\<lambda>label. [''--label'', label]) labels)
        @ concat (map (\<lambda>volume. [''--volume'', volume]) volumes)
        @ [ImageName cp] @ cmd)"

definition startTheContainer ::
  "dockerWorld \<Rightarrow> RunnerParams \<Rightarrow> string \<Rightarrow> string list \<Rightarrow> action list \<Rightarrow> run"
where
  "startTheContainer w cp name cmd tr =
    (let args = dockerRunArgs w cp name cmd;
         tr1 = tr @ [ExecDocker args] in
     case w_Start w args of
       Some err \<Rightarrow> Exit (tr1 @ [LoggerFatal err])
     | None \<Rightarrow>
        (let tr2 = tr1 @ [LoggerPrint (''External runner '' @ name @ '' has started.''),
                          LoggerDebug (''Docker image: '' @ ImageName cp),
                          Sleep 1000] in
         case w_InspectContainer w (length tr2) name of
           Inl err \<Rightarrow> Exit (tr2 @ [InspectContainer name, LoggerFatal err])
         | Inr theDockerContainer \<Rightarrow>
             Cont (cp\<lparr>containers := containers cp @
                      [\<lparr>containerName = name,
                        containerID = ID theDockerContainer,
                        containerStatus = Status theDockerContainer\<rparr>]\<rparr>)
                  (tr2 @ [InspectContainer name])))"

text \<open>
  \<open>startTheRunners\<close> (lines 200 to 221). The loop counts \<open>i\<close> down from \<open>RunnerCount\<close>
  while it is positive; \<open>ct\<close> numbers the names and advances when the command was built
  without an error.
\<close>

definition runnerName :: "RunnerParams \<Rightarrow> int \<Rightarrow> string" where
  "runnerName cp ct = Basename cp @ ''_'' @ showInt ct"

fun startLoop :: "dockerWorld \<Rightarrow> nat \<Rightarrow> int \<Rightarrow> RunnerParams \<Rightarrow> action list \<Rightarrow> run" where
  "startLoop w 0 ct cp tr = Cont cp tr"
| "startLoop w (Suc i) ct cp tr =
    (case createTheRunnerCommand cp (runnerName cp ct) of
       Inl err \<Rightarrow> startLoop w i ct cp tr
     | Inr cmd \<Rightarrow>
        (case startTheContainer w cp (runnerName cp ct) cmd tr of
           Exit tr' \<Rightarrow> Exit tr'
         | Cont cp' tr' \<Rightarrow> startLoop w i (ct + 1) cp' tr'))"

definition startTheRunners :: "dockerWorld \<Rightarrow> RunnerParams \<Rightarrow> action list \<Rightarrow> run" where
  "startTheRunners w cp tr =
    (if BearerToken cp = [] then
       (let token = w_Getenv w in
        if token = [] then
          Exit (tr @ [LoggerFatal
            ''Unable to start runner(s) because runner bearer token was not supplied.''])
        else startLoop w (nat (RunnerCount cp)) 1 (cp\<lparr>BearerToken := token\<rparr>) tr)
     else startLoop w (nat (RunnerCount cp)) 1 cp tr)"

text \<open>
  \<open>shutdownRunners\<close> (lines 369 to 421). The loop that waits for a killed container to
  exit has no bound; \<open>fuel\<close> is the number of inspections it is given, and \<open>None\<close> says
  that it is still polling after them.
\<close>

fun waitForExit ::
  "dockerWorld \<Rightarrow> nat \<Rightarrow> dockerContainer \<Rightarrow> action list \<Rightarrow> action list option"
where
  "waitForExit w 0 dockerContainer tr = None"
| "waitForExit w (Suc fuel) dockerContainer tr =
    (let tr1 = tr @ [Sleep 1000] in
     case w_InspectContainer w (length tr1) (ID dockerContainer) of
       Inl err \<Rightarrow> Some (tr1 @ [InspectContainer (ID dockerContainer)])
     | Inr container \<Rightarrow>
         if Status container = ''exited'' then
           Some (tr1 @ [InspectContainer (ID dockerContainer),
                        RemoveContainer (ID container),
                        LoggerPrint (''External runner '' @ stripSlashFromName (Name dockerContainer)
                                       @ '' has terminated.'')])
         else waitForExit w fuel dockerContainer (tr1 @ [InspectContainer (ID dockerContainer)]))"

definition shutdownOne ::
  "dockerWorld \<Rightarrow> nat \<Rightarrow> dockerContainer \<Rightarrow> action list \<Rightarrow> action list option"
where
  "shutdownOne w fuel dockerContainer tr =
    (let containerName = stripSlashFromName (Name dockerContainer) in
     if Status dockerContainer \<noteq> ''running'' then
       Some (tr @ [LoggerPrint (''Inactive external runner container '' @ containerName @ '' is removed.''),
                   RemoveContainer (ID dockerContainer)])
     else
       (case w_KillContainer w (ID dockerContainer) of
          Some err \<Rightarrow>
            Some (tr @ [KillContainer (ID dockerContainer),
                        LoggerPrint (''failed to kill runner container: '' @ containerName
                                       @ '', err='' @ err)])
        | None \<Rightarrow> waitForExit w fuel dockerContainer (tr @ [KillContainer (ID dockerContainer)])))"

fun shutdownEach ::
  "dockerWorld \<Rightarrow> nat \<Rightarrow> dockerContainer list \<Rightarrow> action list \<Rightarrow> action list option"
where
  "shutdownEach w fuel [] tr = Some tr"
| "shutdownEach w fuel (dockerContainer # runners) tr =
    (case shutdownOne w fuel dockerContainer tr of
       None \<Rightarrow> None
     | Some tr' \<Rightarrow> shutdownEach w fuel runners tr')"

definition shutdownRunners ::
  "dockerWorld \<Rightarrow> nat \<Rightarrow> RunnerParams \<Rightarrow> dockerContainer list \<Rightarrow> action list \<Rightarrow> run option"
where
  "shutdownRunners w fuel cp runners tr =
    (if runners = [] then
       Some (Exit (tr @ [LoggerFatal ''There are no external runners to terminate'']))
     else
       (case shutdownEach w fuel runners tr of
          None \<Rightarrow> None
        | Some tr' \<Rightarrow>
            Some (Cont cp (tr' @ [LoggerPrint (''External runner(s) for '' @ Basename cp @ '' stopped.'')]))))"

text \<open>
  \<open>waitForExternalRunners\<close> (lines 431 to 466). One scan of the inner loop goes through
  the handles \<open>rest\<close> from index \<open>i\<close> on; \<open>all\<close> is \<open>cp.containers\<close>. At the first
  handle whose inspection fails or reports \<open>exited\<close> it takes that handle out and
  breaks. The outer loop has no bound; \<open>fuel\<close> is the number of scans it is given.
\<close>

fun scan ::
  "dockerWorld \<Rightarrow> runnerContainer list \<Rightarrow> nat \<Rightarrow> runnerContainer list \<Rightarrow> action list
    \<Rightarrow> runnerContainer list \<times> action list"
where
  "scan w all i [] tr = (all, tr)"
| "scan w all i (rc # rest) tr =
    (case w_InspectContainer w (length tr) (containerID rc) of
       Inl err \<Rightarrow> (take i all @ drop (i + 1) all, tr @ [InspectContainer (containerID rc)])
     | Inr dockerContainer \<Rightarrow>
         if Status dockerContainer = ''exited'' then
           (take i all @ drop (i + 1) all,
            tr @ [InspectContainer (containerID rc),
                  RemoveContainer (ID dockerContainer),
                  LoggerPrint (''External runner '' @ containerName rc @ '' has been stopped.'')])
         else scan w all (i + 1) rest (tr @ [InspectContainer (containerID rc)]))"

fun waitLoop ::
  "dockerWorld \<Rightarrow> nat \<Rightarrow> runnerContainer list \<Rightarrow> action list
    \<Rightarrow> (runnerContainer list \<times> action list) option"
where
  "waitLoop w fuel [] tr = Some ([], tr)"
| "waitLoop w 0 (c # cs) tr = None"
| "waitLoop w (Suc fuel) (c # cs) tr =
    (case scan w (c # cs) 0 (c # cs) (tr @ [Sleep 5000]) of
       (cs', tr') \<Rightarrow> waitLoop w fuel cs' tr')"

definition waitForExternalRunners ::
  "dockerWorld \<Rightarrow> nat \<Rightarrow> RunnerParams \<Rightarrow> action list \<Rightarrow> run option"
where
  "waitForExternalRunners w fuel cp tr =
    (case waitLoop w fuel (containers cp)
            (tr @ map (\<lambda>p. GoLogFromContainer (containerName p)) (containers cp)) of
       None \<Rightarrow> None
     | Some (cs, tr') \<Rightarrow> Some (Cont (cp\<lparr>containers := cs\<rparr>) tr'))"

text \<open>The report of the status command (lines 140 to 161).\<close>

fun statusEach :: "dockerContainer list \<Rightarrow> action list \<Rightarrow> action list" where
  "statusEach [] tr = tr"
| "statusEach (dockerContainer # runners) tr =
    (let cname = stripSlashFromName (Name dockerContainer);
         stats = Status dockerContainer in
     if stats \<noteq> ''running'' then
       statusEach runners
         (tr @ [LoggerPrint (''Inactive external runner container '' @ cname @ '' is being removed.''),
                RemoveContainer (ID dockerContainer)])
     else
       statusEach runners
         (tr @ [LoggerPrint (''External runner container: '' @ cname @ '' is active, status='' @ stats)]))"

definition statusReport :: "dockerContainer list \<Rightarrow> action list \<Rightarrow> action list" where
  "statusReport runners tr =
    (if runners \<noteq> [] then statusEach runners tr
     else tr @ [LoggerPrint ''There are no external runners active.''])"

text \<open>The check of the selection options (lines 171 to 179): the fatal message, if any.\<close>

definition checkAllOption :: "RunnerParams \<Rightarrow> string option" where
  "checkAllOption cp =
    (if AllOption cp then
       (if OrgList cp \<noteq> [] \<or> Workflows cp \<noteq> [] \<or> AppNames cp \<noteq> []
        then Some ''--all is not valid with --orgs, --apps, or --workflows'' else None)
     else
       (if OrgList cp = [] \<and> Workflows cp = [] \<and> AppNames cp = []
        then Some ''--all must be specified when no other selection criteria'' else None))"

text \<open>
  \<open>RunDockerController\<close> (lines 80 to 196), in two parts: what follows the listing of
  the runner's containers, and the steps before it.
\<close>

definition runWith ::
  "dockerWorld \<Rightarrow> nat \<Rightarrow> bool \<Rightarrow> RunnerParams \<Rightarrow> dockerContainer list \<Rightarrow> action list \<Rightarrow> run option"
where
  "runWith w fuel statusOnly cp runners tr =
    (if ShutdownFlag cp then shutdownRunners w fuel cp runners tr
     else if statusOnly then Some (Cont cp (statusReport runners tr))
     else if runners \<noteq> [] then
       Some (Cont cp (tr @ [LoggerPrint (''External runner(s) for '' @ Basename cp @ '' already started.'')]))
     else
       (case checkAllOption cp of
          Some msg \<Rightarrow> Some (Exit (tr @ [LoggerFatal msg]))
        | None \<Rightarrow>
           (case startTheRunners w cp tr of
              Exit tr' \<Rightarrow> Some (Exit tr')
            | Cont cp' tr' \<Rightarrow>
               (let tr2 = tr' @ [LoggerInfo (''Output is written to the '' @ StorePath cp' @ '' directory'')] in
                if \<not> NoWait cp' then waitForExternalRunners w fuel cp' tr2
                else Some (Cont cp' (tr2 @ [LoggerInfo
                  ''Use the Wercker runner stop command with the same name to terminate the started external runners.'']))))))"

definition RunDockerController ::
  "dockerWorld \<Rightarrow> nat \<Rightarrow> bool \<Rightarrow> RunnerParams \<Rightarrow> run option"
where
  "RunDockerController w fuel statusOnly cp0 =
    (case (if InstanceName cp0 = [] then
             (case w_Hostname w of
                Inl err \<Rightarrow> Inl (''unable to access hostname: '' @ err)
              | Inr hostName \<Rightarrow> Inr (cp0\<lparr>Basename := hostName\<rparr>))
           else Inr (cp0\<lparr>Basename := InstanceName cp0\<rparr>)) of
       Inl msg \<Rightarrow> Some (Exit [LoggerFatal msg])
     | Inr cp \<Rightarrow>
        (case w_NewClient w (DockerEndpoint cp) of
           Some err \<Rightarrow> Some (Exit [LoggerFatal (''unable to create the Docker client: '' @ err)])
         | None \<Rightarrow>
            (case getLocalImage w cp [] of
               (Inl err, cp', tr) \<Rightarrow>
                 Some (Exit (tr @ [LoggerFatal (''unable to access external runner Docker image: '' @ err)]))
             | (Inr None, cp', tr) \<Rightarrow>
                 Some (Exit (tr @ [LoggerFatal
                   ''No external runner image exists in your local Docker repository. Use wercker runner configure command.'']))
             | (Inr (Some img), cp', tr) \<Rightarrow>
                 (case collectRunners w (''/wercker-external-runner-'' @ Basename cp')
                         (w_ListContainers w) (tr @ [ListContainers]) of
                    (runners, tr1) \<Rightarrow> runWith w fuel statusOnly cp' runners tr1))))"

text \<open>The names of the containers that a trace tries to launch: the argument after \<open>--name\<close>.\<close>

fun launchName :: "action \<Rightarrow> string list" where
  "launchName (ExecDocker args) = (if length args > 3 then [args ! 3] else [])"
| "launchName a = []"

definition attempted :: "action list \<Rightarrow> string list" where
  "attempted tr = concat (map launchName tr)"

text \<open>
  The names that \<open>startTheRunners\<close> gives to \<open>n\<close> containers, numbered from \<open>ct\<close> on, and
  the trace of a run.
\<close>

fun runnerNames :: "RunnerParams \<Rightarrow> int \<Rightarrow> nat \<Rightarrow> string list" where
  "runnerNames cp ct 0 = []"
| "runnerNames cp ct (Suc n) = runnerName cp ct # runnerNames cp (ct + 1) n"

fun traceOf :: "run \<Rightarrow> action list" where
  "traceOf (Exit tr) = tr"
| "traceOf (Cont cp tr) = tr"

text \<open>
  The polling of \<open>shutdownRunners\<close>: \<open>k\<close> rounds of a one-second sleep and an inspection;
  an answer that ends the polling (an error, or the status \<open>exited\<close>); and what follows
  the last inspection (the removal and its message after \<open>exited\<close>, nothing after an error).
\<close>

definition pollTrace :: "nat \<Rightarrow> string \<Rightarrow> action list" where
  "pollTrace k cid = concat (replicate k [Sleep 1000, InspectContainer cid])"

definition endsPolling :: "string + dockerContainer \<Rightarrow> bool" where
  "endsPolling r = (case r of Inl err \<Rightarrow> True | Inr container \<Rightarrow> Status container = ''exited'')"

definition afterPolling :: "dockerContainer \<Rightarrow> string + dockerContainer \<Rightarrow> action list" where
  "afterPolling dockerContainer r =
    (case r of
       Inl err \<Rightarrow> []
     | Inr container \<Rightarrow>
         [RemoveContainer (ID container),
          LoggerPrint (''External runner '' @ stripSlashFromName (Name dockerContainer)
                         @ '' has terminated.'')])"

fun isKill :: "action \<Rightarrow> bool" where
  "isKill (KillContainer cid) = True"
| "isKill a = False"




section \<open>Sample inputs\<close>

text \<open>
  A provisioning service that hands out the request \<open>req-1\<close> and refuses to deprovision,
  a client configured with a deadline of 60 seconds, the same client holding a lease,
  and a JSON log line with the record that \<open>json.Unmarshal\<close> fills from it.
\<close>

definition sampleWorld :: rddWorld where
  "sampleWorld =
     \<lparr>rpcProvision = (\<lambda>run. Inr ''req-1''),
      rpcDeprovision = (\<lambda>rid. Some ''unavailable''),
      dockerNewClient = (\<lambda>uri. None),
      dockerServerVersion = (\<lambda>uri. Inr (''18.06'', ''1.38''))\<rparr>"

definition sampleRDD :: RDD where
  "sampleRDD = New ''rdd:443'' 60 ''run-1''"

definition sampleLeased :: RDD where
  "sampleLeased = sampleRDD\<lparr>details := Some \<lparr>rddURI = ''tcp://h:2376'', rddProvisionRequestID = ''req-1''\<rparr>\<rparr>"






text \<open>
  A Docker host on which everything succeeds and every container is running; the same
  host where \<open>docker run\<close> cannot be started for the container \<open>host1_1\<close>, where a kill
  is refused, where the container exits between the first and the second poll, and where
  every container has exited. A request for two runners named after \<open>host1\<close>, with the
  arguments of its \<open>docker run\<close>; a running container and two handles.
\<close>

definition sampleDocker :: dockerWorld where
  "sampleDocker =
     \<lparr>w_Hostname = Inr ''host1'',
      w_Getenv = [],
      w_Environ = [],
      w_NewClient = (\<lambda>endpoint. None),
      w_ListImages = Inr [\<lparr>RepoTags = [''wercker/wercker-runner:external-runner''], Created = 1\<rparr>],
      w_InspectImage = (\<lambda>name. Inr ''2018-10-01''),
      w_ListContainers = [],
      w_InspectContainer = (\<lambda>t cid. Inr \<lparr>ID = cid, Name = ''/host1_1'', Status = ''running''\<rparr>),
      w_KillContainer = (\<lambda>cid. None),
      w_Start = (\<lambda>args. None)\<rparr>"

definition brokenStartDocker :: dockerWorld where
  "brokenStartDocker =
     sampleDocker\<lparr>w_Start := (\<lambda>args. if args ! 3 = ''host1_1''
                                       then Some ''fork/exec /usr/bin/docker: resource temporarily unavailable'' else None)\<rparr>"

definition killFailsDocker :: dockerWorld where
  "killFailsDocker = sampleDocker\<lparr>w_KillContainer := (\<lambda>cid. Some ''permission denied'')\<rparr>"

definition exitingDocker :: dockerWorld where
  "exitingDocker =
     sampleDocker\<lparr>w_InspectContainer :=
       (\<lambda>t cid. Inr \<lparr>ID = cid, Name = ''/host1_1'',
                       Status = (if t < 4 then ''running'' else ''exited'')\<rparr>)\<rparr>"



definition sampleParams :: RunnerParams where
  "sampleParams =
     \<lparr>BearerToken = ''tok'', InstanceName = ''host1'', GroupName = [],
      ImageName = ''wercker-runner:latest'', OrgID = [], AppNames = [], OrgList = [],
      Workflows = [], StorePath = [], LoggerPath = [], RunnerCount = 2, ShutdownFlag = False,
      Debug = False, Journal = False, AllOption = True, NoWait = True, PollFreq = 0,
      DockerEndpoint = [], Basename = ''host1'', containers = []\<rparr>"

definition sampleRunning :: dockerContainer where
  "sampleRunning = \<lparr>ID = ''c1'', Name = ''/host1_1'', Status = ''running''\<rparr>"



definition sampleCmd :: "string \<Rightarrow> string list" where
  "sampleCmd name =
     [''/externalRunner.sh'', ''--runner-image=wercker-runner:latest'',
      ''--runner-name='' @ name, ''--runner-api-token=tok'', ''--runner-all'']"

definition sampleArgs :: "string \<Rightarrow> string list" where
  "sampleArgs name =
     [''run'', ''--detach'', ''--name'', name, ''-e'', ''WERCKER_RUNNER_TOKEN=tok'',
      ''--label'', ''runner=/wercker-external-runner-host1'',
      ''--volume'', ''/var/lib/wercker:/var/lib/wercker:rw'',
      ''--volume'', ''/var/run/docker.sock:/var/run/docker.sock'',
      ''wercker-runner:latest''] @ sampleCmd name"

section \<open>Properties of the log multiplexer\<close>















section \<open>Properties of the deadline\<close>

lemma isDigit_char_of: "(n::nat) < 10 \<Longrightarrow> isDigit (char_of (48 + n))"
  by (simp add: isDigit_def)

lemma digit_value: "(n::nat) < 10 \<Longrightarrow> of_char (char_of (48 + n) :: char) = (48 + n :: nat)"
  by simp

lemma showNat_small: "n < 10 \<Longrightarrow> showNat n = [char_of (48 + n)]"
  by (simp add: showNat.simps)

lemma showNat_big: "\<not> n < 10 \<Longrightarrow> showNat n = showNat (n div 10) @ [char_of (48 + n mod 10)]"
  by (subst showNat.simps) simp

lemma showNat_hd: "\<exists>c cs. showNat n = c # cs \<and> isDigit c"
proof (induction n rule: showNat.induct)
  case (1 n)
  show ?case
  proof (cases "n < 10")
    case True
    then show ?thesis by (simp add: showNat_small isDigit_char_of)
  next
    case False
    with 1 obtain c cs where "showNat (n div 10) = c # cs" "isDigit c" by blast
    with False show ?thesis by (simp add: showNat_big)
  qed
qed

lemma leadingInt_loop_digit:
  assumes "d < 10" and "x * 10 + d \<le> 2 ^ 63"
  shows "leadingInt_loop x (char_of (48 + d) # rest) = leadingInt_loop (x * 10 + d) rest"
proof -
  from assms(2) have "x \<le> 2 ^ 63 div 10" by simp
  then have "\<not> x > 2 ^ 63 div 10" by simp
  with assms show ?thesis
    by (simp add: isDigit_char_of Let_def del: of_char_of power_numeral)
       (simp add: isDigit_def)
qed

lemma leadingInt_loop_showNat:
  "x * 10 ^ length (showNat n) + n \<le> 2 ^ 63 \<Longrightarrow>
   leadingInt_loop x (showNat n @ rest) = leadingInt_loop (x * 10 ^ length (showNat n) + n) rest"
proof (induction n arbitrary: x rest rule: showNat.induct)
  case (1 n)
  show ?case
  proof (cases "n < 10")
    case True
    with 1(2) show ?thesis
      by (simp add: showNat_small leadingInt_loop_digit del: leadingInt_loop.simps)
  next
    case False
    let ?k = "length (showNat (n div 10))"
    have len: "length (showNat n) = Suc ?k" using False by (simp add: showNat_big)
    have split: "x * 10 ^ length (showNat n) + n = (x * 10 ^ ?k + n div 10) * 10 + n mod 10"
      by (simp add: len algebra_simps)
    with 1(2) have b2: "(x * 10 ^ ?k + n div 10) * 10 + n mod 10 \<le> 2 ^ 63" by simp
    then have b1: "x * 10 ^ ?k + n div 10 \<le> 2 ^ 63" by simp
    have "leadingInt_loop x (showNat n @ rest) =
          leadingInt_loop x (showNat (n div 10) @ (char_of (48 + n mod 10) # rest))"
      using False by (simp add: showNat_big)
    also have "\<dots> = leadingInt_loop (x * 10 ^ ?k + n div 10) (char_of (48 + n mod 10) # rest)"
      using 1(1) [OF False b1] .
    also have "\<dots> = leadingInt_loop ((x * 10 ^ ?k + n div 10) * 10 + n mod 10) rest"
      by (rule leadingInt_loop_digit) (simp, rule b2)
    finally show ?thesis by (simp only: split)
  qed
qed

lemma isDigit_s: "\<not> isDigit CHR ''s''" "\<not> isDigit CHR ''-''" "\<not> isDigit CHR ''+''"
  by (simp_all add: isDigit_def)

lemma leadingInt_seconds:
  "n \<le> 2 ^ 63 \<Longrightarrow> leadingInt (showNat n @ ''s'') = Some (n, ''s'')"
  using leadingInt_loop_showNat [of 0 n "''s''"]
  by (simp add: leadingInt_def isDigit_s)

lemma ParseDuration_loop_seconds:
  assumes "n \<le> 2 ^ 63"
  shows "ParseDuration_loop 0 (showNat n @ ''s'') =
         (if n > 9223372036 then Inl InvalidDuration else Inr (n * 1000000000))"
proof -
  obtain c cs where hd: "showNat n = c # cs" "isDigit c"
    using showNat_hd by blast
  have take1: "takeWhile (\<lambda>c. \<not> (c = CHR ''.'' \<or> isDigit c)) ''s'' = ''s''"
    by (simp add: isDigit_s)
  show ?thesis
    apply (subst ParseDuration_loop.simps)
    apply (simp only: leadingInt_seconds [OF assms])
    apply (simp add: hd take1 unitMap_def Let_def isDigit_s)
    apply (subst ParseDuration_loop.simps)
    apply simp
    done
qed

lemma ParseDuration_seconds:
  assumes "\<bar>i\<bar> \<le> 2 ^ 63"
  shows "ParseDuration (showInt i @ ''s'') =
         (if \<bar>i\<bar> > 9223372036 then Inl InvalidDuration else Inr (i * Second))"
proof (cases "i < 0")
  case True
  let ?n = "nat (- i)"
  obtain c cs where hd: "showNat ?n = c # cs" "isDigit c"
    using showNat_hd by blast
  have n: "?n \<le> 2 ^ 63" using assms True by simp
  have ne: "showNat ?n @ ''s'' \<noteq> ''0''" using hd by auto
  show ?thesis
    using True ParseDuration_loop_seconds [OF n] ne
    by (auto simp add: ParseDuration_def showInt_def Let_def Second_def)
next
  case False
  let ?n = "nat i"
  obtain c cs where hd: "showNat ?n = c # cs" "isDigit c"
    using showNat_hd by blast
  have n: "?n \<le> 2 ^ 63" using assms False by simp
  have ne: "showNat ?n @ ''s'' \<noteq> ''0''" using hd by auto
  have sign: "c \<noteq> CHR ''-''" "c \<noteq> CHR ''+''" using hd(2) isDigit_s by auto
  show ?thesis
    using False ParseDuration_loop_seconds [OF n] ne hd sign
    by (auto simp add: ParseDuration_def showInt_def Let_def Second_def)
qed

lemma sint64_bound: "\<bar>sint (t :: 64 word)\<bar> \<le> 2 ^ 63"
  using sint_ge [of t] sint_lt [of t] by simp

lemma timeoutThresholdInSeconds_value:
  "timeoutThresholdInSeconds t =
     (if \<bar>sint t\<bar> > 9223372036
      then (300 * Second, [LogWarning (TimeoutParseWarning (sint t) InvalidDuration)])
      else (sint t * Second, []))"
  by (simp add: timeoutThresholdInSeconds_def ParseDuration_seconds [OF sint64_bound])

text \<open>
  Claim C10, as stated, fails: a timeout of 9223372037 seconds is an \<open>int64\<close>, its
  nanoseconds do not fit one, \<open>ParseDuration\<close> reports an invalid duration and the
  deadline is the fallback of 300 seconds.
\<close>

theorem timeout_overflow_counterexample:
  "ParseDuration (showInt (sint (9223372037 :: 64 word)) @ ''s'') = Inl InvalidDuration \<and>
   fst (timeoutThresholdInSeconds (9223372037 :: 64 word)) = 300 * Second \<and>
   fst (timeoutThresholdInSeconds (9223372037 :: 64 word)) \<noteq> 9223372037 * Second"
  using ParseDuration_seconds [of "sint (9223372037 :: 64 word)"]
  by (simp add: timeoutThresholdInSeconds_value Second_def)

text \<open>
  Claim C10, amended. For a configured timeout between -9223372036 and 9223372036
  the printed number parses and the deadline is that number of seconds, zero and
  negative ones included, with no warning. For every other \<open>int64\<close> the parse reports an
  overflow and the deadline is 300 seconds.
\<close>

theorem timeout_deadline_in_range:
  "(\<bar>sint t\<bar> \<le> 9223372036 \<longrightarrow>
      ParseDuration (showInt (sint t) @ ''s'') = Inr (sint t * Second) \<and>
      timeoutThresholdInSeconds t = (sint t * Second, [])) \<and>
   (9223372036 < \<bar>sint t\<bar> \<longrightarrow>
      ParseDuration (showInt (sint t) @ ''s'') = Inl InvalidDuration \<and>
      fst (timeoutThresholdInSeconds t) = 300 * Second)"
  using ParseDuration_seconds [OF sint64_bound, of t]
  by (simp add: timeoutThresholdInSeconds_value)

theorem timeout_deadline_in_range_witness:
  "\<bar>sint (60 :: 64 word)\<bar> \<le> 9223372036 \<and>
   timeoutThresholdInSeconds (60 :: 64 word) = (60000000000, []) \<and>
   \<bar>sint (- 5 :: 64 word)\<bar> \<le> 9223372036 \<and>
   timeoutThresholdInSeconds (- 5 :: 64 word) = (- 5000000000, []) \<and>
   9223372036 < \<bar>sint (9223372037 :: 64 word)\<bar> \<and>
   fst (timeoutThresholdInSeconds (9223372037 :: 64 word)) = 300000000000"
  using timeout_deadline_in_range [of 60] timeout_deadline_in_range [of "- 5"]
    timeout_deadline_in_range [of 9223372037]
  by (simp add: Second_def)

section \<open>Properties of the lease client\<close>

lemma pollLoop_keeps_polling:
  "\<forall>e\<in>set pre. keepsPolling e \<Longrightarrow>
   pollLoop w thr rid (pre @ es) rdd tr =
   pollLoop w thr rid es rdd (tr @ concat (map (tickActions rdd rid) pre))"
proof (induction pre arbitrary: tr)
  case Nil
  then show ?case by simp
next
  case (Cons e pre)
  then have k: "keepsPolling e" and rest: "\<forall>e\<in>set pre. keepsPolling e" by simp_all
  show ?case
  proof (cases e)
    case TimeoutFired
    with k show ?thesis by simp
  next
    case (TickFired resp)
    show ?thesis
    proof (cases resp)
      case (Inl err)
      with TickFired Cons.IH [OF rest] show ?thesis by simp
    next
      case (Inr p)
      obtain st url where p: "p = (st, url)" by (cases p)
      with Inr TickFired k Cons.IH [OF rest] show ?thesis by simp
    qed
  qed
qed

lemma threshold_warn_cases:
  "snd (timeoutThresholdInSeconds t) = [] \<or>
   (\<exists>e. snd (timeoutThresholdInSeconds t) = [LogWarning (TimeoutParseWarning (sint t) e)])"
  by (simp add: timeoutThresholdInSeconds_def split: sum.splits)

lemma filter_ticks:
  "\<forall>e\<in>set pre. keepsPolling e \<Longrightarrow>
   filter isCallGetStatus (concat (map (tickActions rdd rid) pre)) = replicate (length pre) (CallGetStatus rid)"
  "filter isCallProvision (concat (map (tickActions rdd rid) pre)) = []"
  "filter isCallDeprovision (concat (map (tickActions rdd rid) pre)) = []"
  "filter isTimeOutLog (concat (map (tickActions rdd rid) pre)) = []"
proof -
  have one: "keepsPolling e \<Longrightarrow> filter isCallGetStatus (tickActions rdd rid e) = [CallGetStatus rid]" for e
    by (induction rdd rid e rule: tickActions.induct) simp_all
  have none: "filter isCallProvision (tickActions rdd rid e) = []"
    "filter isCallDeprovision (tickActions rdd rid e) = []"
    "filter isTimeOutLog (tickActions rdd rid e) = []" for e
    by (induction rdd rid e rule: tickActions.induct) simp_all
  show "\<forall>e\<in>set pre. keepsPolling e \<Longrightarrow>
   filter isCallGetStatus (concat (map (tickActions rdd rid) pre)) = replicate (length pre) (CallGetStatus rid)"
    by (induction pre) (simp_all add: one)
  show "filter isCallProvision (concat (map (tickActions rdd rid) pre)) = []"
    by (induction pre) (simp_all add: none)
  show "filter isCallDeprovision (concat (map (tickActions rdd rid) pre)) = []"
    by (induction pre) (simp_all add: none)
  show "filter isTimeOutLog (concat (map (tickActions rdd rid) pre)) = []"
    by (induction pre) (simp_all add: none)
qed

lemma Provision_polls:
  assumes "rpcProvision w (runID rdd) = Inr rid" "rid \<noteq> []" "\<forall>e\<in>set pre. keepsPolling e"
  shows "Provision w (pre @ es) rdd =
         pollLoop w (fst (timeoutThresholdInSeconds (rddProvisionTimeout rdd))) rid es rdd
           ([CallProvision (runID rdd)] @ snd (timeoutThresholdInSeconds (rddProvisionTimeout rdd))
             @ concat (map (tickActions rdd rid) pre))"
  using assms by (simp add: Provision_def pollLoop_keeps_polling split: prod.splits)

text \<open>
  Claim C5. When the timeout channel fires after ticks that all left the loop running,
  \<open>Provision\<close> returns the timeout error and leaves the client as it was. The trace holds
  one timeout message, and it is the last entry: nothing is polled after it, whatever
  events would follow. There is one \<open>GetStatus\<close> call per tick before the timeout, the one
  \<open>Provision\<close> call of the start, and no \<open>Deprovision\<close> call.
\<close>

theorem Provision_timeout_once:
  assumes "rpcProvision w (runID rdd) = Inr rid" and "rid \<noteq> []"
    and "\<forall>e\<in>set pre. keepsPolling e"
  shows "\<exists>tr m. m = TimeOut (rddServiceEndpoint rdd) (runID rdd)
                    (secondsOf (fst (timeoutThresholdInSeconds (rddProvisionTimeout rdd))))
          \<and> Provision w (pre @ TimeoutFired # rest) rdd = Some (Return (Inl m, rdd, tr))
          \<and> filter isTimeOutLog tr = [LogError m]
          \<and> last tr = LogError m
          \<and> filter isCallGetStatus tr = replicate (length pre) (CallGetStatus rid)
          \<and> filter isCallProvision tr = [CallProvision (runID rdd)]
          \<and> filter isCallDeprovision tr = []"
proof -
  let ?thr = "fst (timeoutThresholdInSeconds (rddProvisionTimeout rdd))"
  let ?warn = "snd (timeoutThresholdInSeconds (rddProvisionTimeout rdd))"
  let ?m = "TimeOut (rddServiceEndpoint rdd) (runID rdd) (secondsOf ?thr)"
  let ?tr = "[CallProvision (runID rdd)] @ ?warn @ concat (map (tickActions rdd rid) pre) @ [LogError ?m]"
  have run: "Provision w (pre @ TimeoutFired # rest) rdd = Some (Return (Inl ?m, rdd, ?tr))"
    using Provision_polls [OF assms, of "TimeoutFired # rest"] by (simp add: Let_def)
  have warn: "filter isTimeOutLog ?warn = []" "filter isCallGetStatus ?warn = []"
    "filter isCallProvision ?warn = []" "filter isCallDeprovision ?warn = []"
    using threshold_warn_cases [of "rddProvisionTimeout rdd"] by auto
  have "filter isTimeOutLog ?tr = [LogError ?m]"
    by (simp add: warn filter_ticks)
  moreover have "last ?tr = LogError ?m" by simp
  moreover have "filter isCallGetStatus ?tr = replicate (length pre) (CallGetStatus rid)"
    using assms(3) by (simp add: warn filter_ticks)
  moreover have "filter isCallProvision ?tr = [CallProvision (runID rdd)]"
    by (simp add: warn filter_ticks)
  moreover have "filter isCallDeprovision ?tr = []"
    by (simp add: warn filter_ticks)
  ultimately show ?thesis using run by blast
qed

theorem Provision_timeout_once_witness:
  "rpcProvision sampleWorld (runID sampleRDD) = Inr ''req-1'' \<and> ''req-1'' \<noteq> [] \<and>
   keepsPolling (TickFired (Inl ''unavailable'')) \<and>
   keepsPolling (TickFired (Inr (DaemonState_other ''pending'', []))) \<and>
   Provision sampleWorld
     ([TickFired (Inl ''unavailable''), TickFired (Inr (DaemonState_other ''pending'', []))]
       @ TimeoutFired # [TickFired (Inr (DaemonState_provisioned, ''tcp://h:2376''))]) sampleRDD =
   Some (Return (Inl (TimeOut ''rdd:443'' ''run-1'' 60), sampleRDD,
     [CallProvision ''run-1'',
      CallGetStatus ''req-1'', LogError (GetStatusRetrying ''rdd:443'' ''run-1'' ''unavailable''),
      CallGetStatus ''req-1'', LogInfo (ProvisioningStatus ''run-1'' ''rdd:443'' (DaemonState_other ''pending'')),
      LogError (TimeOut ''rdd:443'' ''run-1'' 60)]))"
  using Provision_timeout_once [of sampleWorld sampleRDD "''req-1''"
      "[TickFired (Inl ''unavailable''), TickFired (Inr (DaemonState_other ''pending'', []))]"
      "[TickFired (Inr (DaemonState_provisioned, ''tcp://h:2376''))]"]
  by (simp add: sampleWorld_def sampleRDD_def New_def Provision_def
      timeoutThresholdInSeconds_value secondsOf_def Second_def Let_def)

lemma verify_no_panic: "details rdd = Some det \<Longrightarrow> verify w rdd \<noteq> Panic p"
  by (simp add: verify_def Let_def split: option.splits sum.splits prod.splits)

lemma pollLoop_details:
  assumes "rid \<noteq> []" and "detailsComplete rdd"
  shows "pollLoop w thr rid es rdd tr \<noteq> Some (Panic p) \<and>
         (pollLoop w thr rid es rdd tr = Some (Return (r, rdd', tr')) \<longrightarrow> detailsComplete rdd')"
proof (induction es arbitrary: tr)
  case Nil
  show ?case by simp
next
  case (Cons e es)
  show ?case
  proof (cases e)
    case TimeoutFired
    with assms show ?thesis by (auto simp: Let_def)
  next
    case (TickFired resp)
    show ?thesis
    proof (cases resp)
      case (Inl err)
      with TickFired Cons.IH show ?thesis by simp
    next
      case (Inr q)
      obtain st url where q: "q = (st, url)" by (cases q)
      let ?rdd = "rdd\<lparr>details := Some \<lparr>rddURI = url, rddProvisionRequestID = rid\<rparr>\<rparr>"
      have np: "verify w ?rdd \<noteq> Panic p'" for p'
        by (rule verify_no_panic) simp
      have c: "url \<noteq> [] \<Longrightarrow> detailsComplete ?rdd"
        using assms(1) by (simp add: detailsComplete_def)
      show ?thesis
        using TickFired Inr q Cons.IH assms(2) np c
        by (cases "verify w ?rdd") (auto simp: Let_def split: option.splits)
    qed
  qed
qed

text \<open>
  Claim C4. A client whose lease details are absent or complete has them absent or
  complete after every \<open>Provision\<close> that returns, and \<open>Provision\<close> does not panic. When
  a tick reports \<open>provisioned\<close> with an empty URL, after ticks that left the loop running,
  \<open>Provision\<close> returns the invalid-URL error and the client is unchanged.
\<close>

theorem Provision_details_complete:
  assumes "detailsComplete rdd"
  shows "(\<forall>r rdd' tr. Provision w events rdd = Some (Return (r, rdd', tr)) \<longrightarrow> detailsComplete rdd')
       \<and> (\<forall>p. Provision w events rdd \<noteq> Some (Panic p))
       \<and> (\<forall>rid pre rest.
            rpcProvision w (runID rdd) = Inr rid \<and> rid \<noteq> [] \<and> (\<forall>e\<in>set pre. keepsPolling e) \<longrightarrow>
            (\<exists>tr. Provision w (pre @ TickFired (Inr (DaemonState_provisioned, [])) # rest) rdd =
                   Some (Return (Inl (InvalidRDDUrl (rddServiceEndpoint rdd) (runID rdd)), rdd, tr))))"
proof (intro conjI allI impI)
  fix r rdd' tr
  assume "Provision w events rdd = Some (Return (r, rdd', tr))"
  then show "detailsComplete rdd'"
    using assms pollLoop_details [of _ rdd w _ events _ undefined r rdd' tr]
    by (auto simp: Provision_def Let_def split: sum.splits if_splits prod.splits)
next
  fix p
  show "Provision w events rdd \<noteq> Some (Panic p)"
    using assms pollLoop_details [of _ rdd w _ events _ p]
    by (auto simp: Provision_def Let_def split: sum.splits if_splits prod.splits)
next
  fix rid pre rest
  assume a: "rpcProvision w (runID rdd) = Inr rid \<and> rid \<noteq> [] \<and> (\<forall>e\<in>set pre. keepsPolling e)"
  then show "\<exists>tr. Provision w (pre @ TickFired (Inr (DaemonState_provisioned, [])) # rest) rdd =
                   Some (Return (Inl (InvalidRDDUrl (rddServiceEndpoint rdd) (runID rdd)), rdd, tr))"
    using Provision_polls [of w rdd rid pre "TickFired (Inr (DaemonState_provisioned, [])) # rest"]
    by (simp add: Let_def)
qed

theorem Provision_details_complete_witness:
  "detailsComplete sampleRDD \<and>
   Provision sampleWorld
     [TickFired (Inr (DaemonState_other ''pending'', [])),
      TickFired (Inr (DaemonState_provisioned, []))] sampleRDD =
   Some (Return (Inl (InvalidRDDUrl ''rdd:443'' ''run-1''), sampleRDD,
     [CallProvision ''run-1'',
      CallGetStatus ''req-1'', LogInfo (ProvisioningStatus ''run-1'' ''rdd:443'' (DaemonState_other ''pending'')),
      CallGetStatus ''req-1'', LogError (InvalidRDDUrl ''rdd:443'' ''run-1'')])) \<and>
   (\<exists>tr. Provision sampleWorld
     [TickFired (Inr (DaemonState_provisioned, ''tcp://h:2376''))] sampleRDD =
     Some (Return (Inr ''tcp://h:2376'', sampleLeased, tr)) \<and> detailsComplete sampleLeased)"
  using Provision_details_complete [of sampleRDD sampleWorld
      "[TickFired (Inr (DaemonState_provisioned, ''tcp://h:2376''))]"]
  by (simp add: sampleWorld_def sampleRDD_def sampleLeased_def New_def Provision_def verify_def
      detailsComplete_def timeoutThresholdInSeconds_value secondsOf_def Second_def Let_def)








section \<open>Properties of the shutdown\<close>

lemma pollTrace_Suc: "pollTrace (Suc k) cid = [Sleep 1000, InspectContainer cid] @ pollTrace k cid"
  by (simp add: pollTrace_def)

lemma waitForExit_decisive:
  assumes "\<forall>j<k. \<not> endsPolling (w_InspectContainer w (length tr + 2 * j + 1) (ID dc))"
    and "endsPolling (w_InspectContainer w (length tr + 2 * k + 1) (ID dc))"
    and "k < fuel"
  shows "waitForExit w fuel dc tr =
         Some (tr @ pollTrace (Suc k) (ID dc)
                  @ afterPolling dc (w_InspectContainer w (length tr + 2 * k + 1) (ID dc)))"
  using assms
proof (induction fuel arbitrary: k tr)
  case 0
  then show ?case by simp
next
  case (Suc fuel)
  show ?case
  proof (cases k)
    case 0
    with Suc.prems(2) show ?thesis
      by (auto simp: endsPolling_def afterPolling_def pollTrace_def Let_def split: sum.splits)
  next
    case (Suc k')
    let ?tr = "tr @ [Sleep 1000, InspectContainer (ID dc)]"
    have first: "\<not> endsPolling (w_InspectContainer w (length tr + 1) (ID dc))"
      using Suc.prems(1) Suc by force
    have a: "\<forall>j<k'. \<not> endsPolling (w_InspectContainer w (length ?tr + 2 * j + 1) (ID dc))"
    proof (intro allI impI)
      fix j assume "j < k'"
      then have "Suc j < k" using Suc by simp
      with Suc.prems(1) have "\<not> endsPolling (w_InspectContainer w (length tr + 2 * Suc j + 1) (ID dc))"
        by blast
      then show "\<not> endsPolling (w_InspectContainer w (length ?tr + 2 * j + 1) (ID dc))"
        by (simp add: add.commute add.left_commute)
    qed
    have eq: "length ?tr + 2 * k' + 1 = length tr + 2 * k + 1" using Suc by simp
    have b: "endsPolling (w_InspectContainer w (length ?tr + 2 * k' + 1) (ID dc))"
      using Suc.prems(2) by (simp only: eq)
    have c: "k' < fuel" using Suc.prems(3) Suc by simp
    have step: "waitForExit w (Suc fuel) dc tr = waitForExit w fuel dc ?tr"
      using first by (auto simp: endsPolling_def Let_def split: sum.splits)
    have "waitForExit w fuel dc ?tr =
          Some (?tr @ pollTrace (Suc k') (ID dc)
                  @ afterPolling dc (w_InspectContainer w (length ?tr + 2 * k' + 1) (ID dc)))"
      by (rule Suc.IH [OF a b c])
    then show ?thesis
      unfolding step eq using Suc by (simp add: pollTrace_Suc)
  qed
qed

lemma waitForExit_still_polling:
  assumes "\<forall>j<fuel. \<not> endsPolling (w_InspectContainer w (length tr + 2 * j + 1) (ID dc))"
  shows "waitForExit w fuel dc tr = None"
  using assms
proof (induction fuel arbitrary: tr)
  case 0
  then show ?case by simp
next
  case (Suc fuel)
  let ?tr = "tr @ [Sleep 1000, InspectContainer (ID dc)]"
  have first: "\<not> endsPolling (w_InspectContainer w (length tr + 1) (ID dc))"
    using Suc.prems by force
  have a: "\<forall>j<fuel. \<not> endsPolling (w_InspectContainer w (length ?tr + 2 * j + 1) (ID dc))"
  proof (intro allI impI)
    fix j assume "j < fuel"
    then have "Suc j < Suc fuel" by simp
    with Suc.prems have "\<not> endsPolling (w_InspectContainer w (length tr + 2 * Suc j + 1) (ID dc))"
      by blast
    then show "\<not> endsPolling (w_InspectContainer w (length ?tr + 2 * j + 1) (ID dc))"
      by (simp add: add.commute add.left_commute)
  qed
  have step: "waitForExit w (Suc fuel) dc tr = waitForExit w fuel dc ?tr"
    using first by (auto simp: endsPolling_def Let_def split: sum.splits)
  show ?case unfolding step by (rule Suc.IH [OF a])
qed

lemma waitForExit_kills:
  "waitForExit w fuel dc tr = Some tr' \<Longrightarrow> filter isKill tr' = filter isKill tr"
proof (induction fuel arbitrary: tr)
  case 0
  then show ?case by simp
next
  case (Suc fuel)
  show ?case
  proof (cases "w_InspectContainer w (Suc (length tr)) (ID dc)")
    case (Inl err)
    with Suc.prems show ?thesis by (auto simp: Let_def)
  next
    case (Inr container)
    show ?thesis
    proof (cases "Status container = ''exited''")
      case True
      with Inr Suc.prems show ?thesis by (auto simp: Let_def)
    next
      case False
      with Inr Suc.prems
      have "waitForExit w fuel dc (tr @ [Sleep 1000, InspectContainer (ID dc)]) = Some tr'"
        by (simp add: Let_def)
      from Suc.IH [OF this] show ?thesis by simp
    qed
  qed
qed

text \<open>
  Claim C7, as stated, fails: when the kill call itself returns an error, the controller
  logs it and goes on to the next container. The running container is not polled and
  not removed.
\<close>

theorem shutdownOne_kill_fails_counterexample:
  "Status sampleRunning = ''running'' \<and>
   shutdownOne killFailsDocker (Suc (Suc (Suc 0))) sampleRunning [] =
     Some [KillContainer ''c1'',
           LoggerPrint ''failed to kill runner container: host1_1, err=permission denied'']"
  by (simp add: shutdownOne_def killFailsDocker_def sampleDocker_def sampleRunning_def
      stripSlashFromName_def TrimPrefix_def HasPrefix_def)

text \<open>
  Claim C7, amended. For a running container, \<open>shutdownRunners\<close> issues one kill. When
  the kill fails, it logs the failure, and neither polls nor removes the container. When
  the kill succeeds, it polls: before each inspection it sleeps one second, and it goes on
  until an inspection fails or reports \<open>exited\<close>. After \<open>exited\<close> it removes the container
  and reports it; after a failed inspection it does nothing more, so no removal is
  attempted. While no inspection ends the polling, it has not returned. Every run that
  returns has added exactly one kill to the trace.
\<close>

theorem shutdownOne_running:
  assumes "Status dc = ''running''"
  shows "(\<forall>err. w_KillContainer w (ID dc) = Some err \<longrightarrow>
            shutdownOne w fuel dc tr =
              Some (tr @ [KillContainer (ID dc),
                          LoggerPrint (''failed to kill runner container: ''
                            @ stripSlashFromName (Name dc) @ '', err='' @ err)]))
       \<and> (\<forall>k. w_KillContainer w (ID dc) = None \<and> k < fuel
              \<and> (\<forall>j<k. \<not> endsPolling (w_InspectContainer w (length tr + 2 * j + 2) (ID dc)))
              \<and> endsPolling (w_InspectContainer w (length tr + 2 * k + 2) (ID dc)) \<longrightarrow>
            shutdownOne w fuel dc tr =
              Some (tr @ [KillContainer (ID dc)] @ pollTrace (Suc k) (ID dc)
                      @ afterPolling dc (w_InspectContainer w (length tr + 2 * k + 2) (ID dc))))
       \<and> (w_KillContainer w (ID dc) = None
              \<and> (\<forall>j<fuel. \<not> endsPolling (w_InspectContainer w (length tr + 2 * j + 2) (ID dc))) \<longrightarrow>
            shutdownOne w fuel dc tr = None)
       \<and> (\<forall>tr'. shutdownOne w fuel dc tr = Some tr' \<longrightarrow>
            filter isKill tr' = filter isKill tr @ [KillContainer (ID dc)])"
proof (intro conjI allI impI)
  fix err assume "w_KillContainer w (ID dc) = Some err"
  with assms show "shutdownOne w fuel dc tr =
      Some (tr @ [KillContainer (ID dc),
                  LoggerPrint (''failed to kill runner container: ''
                    @ stripSlashFromName (Name dc) @ '', err='' @ err)])"
    by (simp add: shutdownOne_def)
next
  fix k
  assume a: "w_KillContainer w (ID dc) = None \<and> k < fuel
              \<and> (\<forall>j<k. \<not> endsPolling (w_InspectContainer w (length tr + 2 * j + 2) (ID dc)))
              \<and> endsPolling (w_InspectContainer w (length tr + 2 * k + 2) (ID dc))"
  let ?tr = "tr @ [KillContainer (ID dc)]"
  have l: "length ?tr + 2 * j + 1 = length tr + 2 * j + 2" for j by simp
  have "waitForExit w fuel dc ?tr =
         Some (?tr @ pollTrace (Suc k) (ID dc)
                  @ afterPolling dc (w_InspectContainer w (length ?tr + 2 * k + 1) (ID dc)))"
  proof (rule waitForExit_decisive)
    show "\<forall>j<k. \<not> endsPolling (w_InspectContainer w (length ?tr + 2 * j + 1) (ID dc))"
      unfolding l using a by blast
    show "endsPolling (w_InspectContainer w (length ?tr + 2 * k + 1) (ID dc))"
      unfolding l using a by blast
    show "k < fuel" using a by blast
  qed
  with a assms show "shutdownOne w fuel dc tr =
              Some (tr @ [KillContainer (ID dc)] @ pollTrace (Suc k) (ID dc)
                      @ afterPolling dc (w_InspectContainer w (length tr + 2 * k + 2) (ID dc)))"
    by (simp add: shutdownOne_def)
next
  assume a: "w_KillContainer w (ID dc) = None
              \<and> (\<forall>j<fuel. \<not> endsPolling (w_InspectContainer w (length tr + 2 * j + 2) (ID dc)))"
  let ?tr = "tr @ [KillContainer (ID dc)]"
  have l: "length ?tr + 2 * j + 1 = length tr + 2 * j + 2" for j by simp
  have "waitForExit w fuel dc ?tr = None"
  proof (rule waitForExit_still_polling)
    show "\<forall>j<fuel. \<not> endsPolling (w_InspectContainer w (length ?tr + 2 * j + 1) (ID dc))"
      unfolding l using a by blast
  qed
  with a assms show "shutdownOne w fuel dc tr = None"
    by (simp add: shutdownOne_def)
next
  fix tr' assume r: "shutdownOne w fuel dc tr = Some tr'"
  show "filter isKill tr' = filter isKill tr @ [KillContainer (ID dc)]"
  proof (cases "w_KillContainer w (ID dc)")
    case (Some err)
    with r assms show ?thesis by (auto simp: shutdownOne_def)
  next
    case None
    with r assms have "waitForExit w fuel dc (tr @ [KillContainer (ID dc)]) = Some tr'"
      by (simp add: shutdownOne_def)
    from waitForExit_kills [OF this] show ?thesis by simp
  qed
qed

theorem shutdownOne_running_witness:
  "Status sampleRunning = ''running'' \<and>
   w_KillContainer exitingDocker (ID sampleRunning) = None \<and>
   \<not> endsPolling (w_InspectContainer exitingDocker 2 (ID sampleRunning)) \<and>
   endsPolling (w_InspectContainer exitingDocker 4 (ID sampleRunning)) \<and>
   shutdownOne exitingDocker (Suc (Suc (Suc 0))) sampleRunning [] =
     Some [KillContainer ''c1'',
           Sleep 1000, InspectContainer ''c1'',
           Sleep 1000, InspectContainer ''c1'',
           RemoveContainer ''c1'',
           LoggerPrint ''External runner host1_1 has terminated.'']"
  using shutdownOne_running [of sampleRunning exitingDocker "Suc (Suc (Suc 0))" "[]"]
  by (simp add: shutdownOne_def exitingDocker_def sampleDocker_def sampleRunning_def
      stripSlashFromName_def TrimPrefix_def HasPrefix_def endsPolling_def Let_def)

section \<open>Properties of the wait loop\<close>










section \<open>Properties of the start\<close>

lemma showNat_nonempty: "showNat n \<noteq> []"
  by (cases "n < 10") (simp_all add: showNat_small showNat_big)

lemma digit_char_inj:
  assumes "a < 10" "b < 10" "(char_of (48 + a) :: char) = char_of (48 + b)"
  shows "a = (b::nat)"
proof -
  from assms(3) have "(of_char (char_of (48 + a) :: char) :: nat) = of_char (char_of (48 + b) :: char)"
    by simp
  with assms(1,2) show ?thesis by simp
qed

lemma showNat_inj: "showNat a = showNat b \<Longrightarrow> a = b"
proof (induction a arbitrary: b rule: showNat.induct)
  case (1 a)
  show ?case
  proof (cases "a < 10")
    case True
    show ?thesis
    proof (cases "b < 10")
      case b: True
      with True 1(2) show ?thesis by (simp add: showNat_small digit_char_inj)
    next
      case False
      with True 1(2) showNat_nonempty [of "b div 10"] show ?thesis
        by (simp add: showNat_small showNat_big)
    qed
  next
    case False
    show ?thesis
    proof (cases "b < 10")
      case True
      with False 1(2) showNat_nonempty [of "a div 10"] show ?thesis
        by (simp add: showNat_small showNat_big)
    next
      case b: False
      from False b 1(2) have e: "showNat (a div 10) = showNat (b div 10)"
        and d: "(char_of (48 + a mod 10) :: char) = char_of (48 + b mod 10)"
        by (simp_all add: showNat_big)
      from 1(1) [OF False e] have q: "a div 10 = b div 10" .
      from d have r: "a mod 10 = b mod 10" by (intro digit_char_inj) simp_all
      from q r show ?thesis by (metis div_mult_mod_eq)
    qed
  qed
qed

lemma runnerName_inj:
  "runnerName cp a = runnerName cp b \<Longrightarrow> 0 \<le> a \<Longrightarrow> 0 \<le> b \<Longrightarrow> a = b"
  using showNat_inj [of "nat a" "nat b"] by (simp add: runnerName_def showInt_def)

lemma dockerRunArgs_name:
  "dockerRunArgs w cp name cmd ! 3 = name" "3 < length (dockerRunArgs w cp name cmd)"
  by (simp_all add: dockerRunArgs_def Let_def)

lemma dockerRunArgs_containers [simp]:
  "dockerRunArgs w (cp\<lparr>containers := cs\<rparr>) = dockerRunArgs w cp"
  by (intro ext) (simp add: dockerRunArgs_def)

lemma createTheRunnerCommand_containers [simp]:
  "createTheRunnerCommand (cp\<lparr>containers := cs\<rparr>) = createTheRunnerCommand cp"
  by (intro ext) (simp add: createTheRunnerCommand_def)

lemma runnerName_containers [simp]:
  "runnerName (cp\<lparr>containers := cs\<rparr>) = runnerName cp"
  by (intro ext) (simp add: runnerName_def)

lemma createTheRunnerCommand_Inr: "\<exists>cmd. createTheRunnerCommand cp name = Inr cmd"
  by (simp add: createTheRunnerCommand_def)

lemma attempted_append [simp]: "attempted (tr @ tr') = attempted tr @ attempted tr'"
  by (simp add: attempted_def)

lemma attempted_launch:
  "attempted (ExecDocker (dockerRunArgs w cp name cmd) # tr) = name # attempted tr"
  by (simp add: attempted_def dockerRunArgs_name)

lemma attempted_others [simp]:
  "attempted (LoggerPrint s # tr) = attempted tr"
  "attempted (LoggerDebug s # tr) = attempted tr"
  "attempted (LoggerFatal s # tr) = attempted tr"
  "attempted (Sleep n # tr) = attempted tr"
  "attempted (InspectContainer s # tr) = attempted tr"
  "attempted [] = []"
  by (simp_all add: attempted_def)

lemma add_4_Suc: "n + 4 = Suc (Suc (Suc (Suc n)))"
  by simp

lemma startTheContainer_ok:
  assumes "w_Start w (dockerRunArgs w cp name cmd) = None"
    and "w_InspectContainer w (length tr + 4) name = Inr dc"
  shows "startTheContainer w cp name cmd tr =
     Cont (cp\<lparr>containers := containers cp @
              [\<lparr>containerName = name, containerID = ID dc, containerStatus = Status dc\<rparr>]\<rparr>)
          (tr @ [ExecDocker (dockerRunArgs w cp name cmd),
                 LoggerPrint (''External runner '' @ name @ '' has started.''),
                 LoggerDebug (''Docker image: '' @ ImageName cp),
                 Sleep 1000, InspectContainer name])"
  using assms by (simp add: startTheContainer_def Let_def add_4_Suc)

lemma startTheContainer_start_fails:
  assumes "w_Start w (dockerRunArgs w cp name cmd) = Some err"
  shows "startTheContainer w cp name cmd tr =
     Exit (tr @ [ExecDocker (dockerRunArgs w cp name cmd), LoggerFatal err])"
  using assms by (simp add: startTheContainer_def Let_def)

lemma startTheContainer_inspect_fails:
  assumes "w_Start w (dockerRunArgs w cp name cmd) = None"
    and "w_InspectContainer w (length tr + 4) name = Inl err"
  shows "startTheContainer w cp name cmd tr =
     Exit (tr @ [ExecDocker (dockerRunArgs w cp name cmd),
                 LoggerPrint (''External runner '' @ name @ '' has started.''),
                 LoggerDebug (''Docker image: '' @ ImageName cp),
                 Sleep 1000, InspectContainer name, LoggerFatal err])"
  using assms by (simp add: startTheContainer_def Let_def add_4_Suc)

lemma runnerNames_containers [simp]:
  "runnerNames (cp\<lparr>containers := cs\<rparr>) ct n = runnerNames cp ct n"
  by (induction n arbitrary: ct) simp_all

lemma runnerNames_length [simp]: "length (runnerNames cp ct n) = n"
  by (induction n arbitrary: ct) simp_all

lemma runnerNames_nth: "j < n \<Longrightarrow> runnerNames cp ct n ! j = runnerName cp (ct + int j)"
proof (induction n arbitrary: ct j)
  case 0
  then show ?case by simp
next
  case (Suc n)
  show ?case
  proof (cases j)
    case 0
    then show ?thesis by simp
  next
    case (Suc j')
    with Suc.prems have "j' < n" by simp
    from Suc.IH [OF this, of "ct + 1"] Suc show ?thesis
      by (simp add: add.commute add.left_commute)
  qed
qed

lemma runnerNames_distinct: "0 \<le> ct \<Longrightarrow> distinct (runnerNames cp ct n)"
proof (subst distinct_conv_nth, intro allI impI)
  fix i j
  assume ct: "0 \<le> ct" and i: "i < length (runnerNames cp ct n)"
    and j: "j < length (runnerNames cp ct n)" and ne: "i \<noteq> j"
  show "runnerNames cp ct n ! i \<noteq> runnerNames cp ct n ! j"
  proof
    assume "runnerNames cp ct n ! i = runnerNames cp ct n ! j"
    with i j have "runnerName cp (ct + int i) = runnerName cp (ct + int j)"
      by (simp add: runnerNames_nth)
    then have "ct + int i = ct + int j"
      using ct by (intro runnerName_inj [of cp]) simp_all
    with ne show False by simp
  qed
qed

lemma startLoop_ok:
  assumes "\<forall>args. w_Start w args = None"
    and "\<forall>t name. \<exists>dc. w_InspectContainer w t name = Inr dc"
  shows "\<exists>cs tr'. startLoop w n ct cp tr = Cont (cp\<lparr>containers := containers cp @ cs\<rparr>) tr'
          \<and> attempted tr' = attempted tr @ runnerNames cp ct n
          \<and> map containerName cs = runnerNames cp ct n"
proof (induction n arbitrary: ct cp tr)
  case 0
  show ?case by (intro exI [of _ "[]"] exI [of _ tr]) simp
next
  case (Suc n)
  let ?name = "runnerName cp ct"
  obtain cmd where cmd: "createTheRunnerCommand cp ?name = Inr cmd"
    using createTheRunnerCommand_Inr by blast
  obtain dc where dc: "w_InspectContainer w (length tr + 4) ?name = Inr dc"
    using assms(2) by blast
  let ?c = "\<lparr>containerName = ?name, containerID = ID dc, containerStatus = Status dc\<rparr>"
  let ?cp = "cp\<lparr>containers := containers cp @ [?c]\<rparr>"
  let ?tr = "tr @ [ExecDocker (dockerRunArgs w cp ?name cmd),
                 LoggerPrint (''External runner '' @ ?name @ '' has started.''),
                 LoggerDebug (''Docker image: '' @ ImageName cp),
                 Sleep 1000, InspectContainer ?name]"
  have ok: "w_Start w (dockerRunArgs w cp ?name cmd) = None"
    using assms(1) by (rule spec)
  have step: "startLoop w (Suc n) ct cp tr = startLoop w n (ct + 1) ?cp ?tr"
    by (simp add: cmd startTheContainer_ok [OF ok dc])
  from Suc.IH [of "ct + 1" ?cp ?tr]
  obtain cs tr' where r: "startLoop w n (ct + 1) ?cp ?tr = Cont (?cp\<lparr>containers := containers ?cp @ cs\<rparr>) tr'"
    and a: "attempted tr' = attempted ?tr @ runnerNames ?cp (ct + 1) n"
    and c: "map containerName cs = runnerNames ?cp (ct + 1) n"
    by (elim exE conjE)
  have "startLoop w (Suc n) ct cp tr = Cont (cp\<lparr>containers := containers cp @ (?c # cs)\<rparr>) tr'"
    using step r by simp
  moreover have "attempted tr' = attempted tr @ runnerNames cp ct (Suc n)"
    using a by (simp add: attempted_launch)
  moreover have "map containerName (?c # cs) = runnerNames cp ct (Suc n)"
    using c by simp
  ultimately show ?case by blast
qed

lemma startLoop_fails_at:
  assumes "\<forall>t name. \<exists>dc. w_InspectContainer w t name = Inr dc"
  shows "\<forall>args. (w_Start w args \<noteq> None) = (args ! 3 = runnerName cp (ct + int k)) \<Longrightarrow>
         k < n \<Longrightarrow> 0 \<le> ct \<Longrightarrow>
         \<exists>tr' err. startLoop w n ct cp tr = Exit tr'
          \<and> attempted tr' = attempted tr @ runnerNames cp ct (Suc k)
          \<and> last tr' = LoggerFatal err"
proof (induction n arbitrary: k ct cp tr)
  case 0
  then show ?case by simp
next
  case (Suc n)
  let ?name = "runnerName cp ct"
  obtain cmd where cmd: "createTheRunnerCommand cp ?name = Inr cmd"
    using createTheRunnerCommand_Inr by blast
  let ?args = "dockerRunArgs w cp ?name cmd"
  have "(w_Start w ?args \<noteq> None) = (?args ! 3 = runnerName cp (ct + int k))"
    using Suc.prems(1) by (rule spec)
  then have fails_iff: "(w_Start w ?args \<noteq> None) = (?name = runnerName cp (ct + int k))"
    by (simp only: dockerRunArgs_name(1))
  show ?case
  proof (cases k)
    case 0
    then have "runnerName cp (ct + int k) = ?name" by simp
    with fails_iff have "w_Start w ?args \<noteq> None" by simp
    then obtain err where err: "w_Start w ?args = Some err" by blast
    have run: "startLoop w (Suc n) ct cp tr = Exit (tr @ [ExecDocker ?args, LoggerFatal err])"
      by (simp add: cmd startTheContainer_start_fails [OF err])
    have att: "attempted (tr @ [ExecDocker ?args, LoggerFatal err]) =
               attempted tr @ runnerNames cp ct (Suc k)"
      using 0 by (simp add: attempted_launch)
    have "last (tr @ [ExecDocker ?args, LoggerFatal err]) = LoggerFatal err" by simp
    with run att show ?thesis by blast
  next
    case (Suc k')
    have "?name \<noteq> runnerName cp (ct + int k)"
    proof
      assume "?name = runnerName cp (ct + int k)"
      then have "ct = ct + int k"
        using Suc.prems(3) by (intro runnerName_inj [of cp]) simp_all
      with Suc show False by simp
    qed
    with fails_iff have ok: "w_Start w ?args = None" by simp
    obtain dc where dc: "w_InspectContainer w (length tr + 4) ?name = Inr dc"
      using assms by blast
    let ?c = "\<lparr>containerName = ?name, containerID = ID dc, containerStatus = Status dc\<rparr>"
    let ?cp = "cp\<lparr>containers := containers cp @ [?c]\<rparr>"
    let ?tr = "tr @ [ExecDocker ?args,
                 LoggerPrint (''External runner '' @ ?name @ '' has started.''),
                 LoggerDebug (''Docker image: '' @ ImageName cp),
                 Sleep 1000, InspectContainer ?name]"
    have step: "startLoop w (Suc n) ct cp tr = startLoop w n (ct + 1) ?cp ?tr"
      by (simp add: cmd startTheContainer_ok [OF ok dc])
    have k: "ct + 1 + int k' = ct + int k" using Suc by simp
    have h: "\<forall>args. (w_Start w args \<noteq> None) = (args ! 3 = runnerName ?cp (ct + 1 + int k'))"
      unfolding k runnerName_containers by (rule Suc.prems(1))
    have kn: "k' < n" using Suc.prems(2) Suc by simp
    have c0: "0 \<le> ct + 1" using Suc.prems(3) by simp
    from Suc.IH [OF h kn c0, of ?tr]
    obtain tr' err where r: "startLoop w n (ct + 1) ?cp ?tr = Exit tr'"
      and a: "attempted tr' = attempted ?tr @ runnerNames ?cp (ct + 1) (Suc k')"
      and l: "last tr' = LoggerFatal err"
      by (elim exE conjE)
    have att: "attempted tr' = attempted tr @ runnerNames cp ct (Suc k)"
      using a Suc by (simp add: attempted_launch)
    have "startLoop w (Suc n) ct cp tr = Exit tr'" using step r by simp
    with att l show ?thesis by blast
  qed
qed

lemma runnerName_token [simp]: "runnerName (cp\<lparr>BearerToken := t\<rparr>) = runnerName cp"
  by (intro ext) (simp add: runnerName_def)

lemma runnerNames_token [simp]: "runnerNames (cp\<lparr>BearerToken := t\<rparr>) ct n = runnerNames cp ct n"
  by (induction n arbitrary: ct) simp_all

lemma startTheRunners_loop:
  assumes "BearerToken cp \<noteq> [] \<or> w_Getenv w \<noteq> []"
  shows "\<exists>cp0. startTheRunners w cp tr = startLoop w (nat (RunnerCount cp)) 1 cp0 tr
          \<and> runnerName cp0 = runnerName cp \<and> containers cp0 = containers cp
          \<and> (\<forall>ct n. runnerNames cp0 ct n = runnerNames cp ct n)"
proof (cases "BearerToken cp = []")
  case True
  with assms have "startTheRunners w cp tr =
      startLoop w (nat (RunnerCount cp)) 1 (cp\<lparr>BearerToken := w_Getenv w\<rparr>) tr"
    by (simp add: startTheRunners_def Let_def)
  then show ?thesis
    by (intro exI [of _ "cp\<lparr>BearerToken := w_Getenv w\<rparr>"]) simp
next
  case False
  then have "startTheRunners w cp tr = startLoop w (nat (RunnerCount cp)) 1 cp tr"
    by (simp add: startTheRunners_def)
  then show ?thesis by (intro exI [of _ cp]) simp
qed

lemma startTheRunners_ok:
  assumes "BearerToken cp \<noteq> [] \<or> w_Getenv w \<noteq> []"
    and "\<forall>args. w_Start w args = None"
    and "\<forall>t name. \<exists>dc. w_InspectContainer w t name = Inr dc"
  shows "\<exists>cp' tr'. startTheRunners w cp tr = Cont cp' tr'
          \<and> attempted tr' = attempted tr @ runnerNames cp 1 (nat (RunnerCount cp))
          \<and> map containerName (containers cp') =
              map containerName (containers cp) @ runnerNames cp 1 (nat (RunnerCount cp))"
proof -
  obtain cp0 where s: "startTheRunners w cp tr = startLoop w (nat (RunnerCount cp)) 1 cp0 tr"
    and c: "containers cp0 = containers cp"
    and n: "\<forall>ct n. runnerNames cp0 ct n = runnerNames cp ct n"
    using startTheRunners_loop [OF assms(1)] by blast
  from startLoop_ok [OF assms(2,3), of "nat (RunnerCount cp)" 1 cp0 tr]
  obtain cs tr' where r: "startLoop w (nat (RunnerCount cp)) 1 cp0 tr =
        Cont (cp0\<lparr>containers := containers cp0 @ cs\<rparr>) tr'"
    and a: "attempted tr' = attempted tr @ runnerNames cp0 1 (nat (RunnerCount cp))"
    and m: "map containerName cs = runnerNames cp0 1 (nat (RunnerCount cp))"
    by (elim exE conjE)
  have "startTheRunners w cp tr = Cont (cp0\<lparr>containers := containers cp0 @ cs\<rparr>) tr'"
    using s r by simp
  moreover have "attempted tr' = attempted tr @ runnerNames cp 1 (nat (RunnerCount cp))"
    using a n by simp
  moreover have "map containerName (containers (cp0\<lparr>containers := containers cp0 @ cs\<rparr>)) =
      map containerName (containers cp) @ runnerNames cp 1 (nat (RunnerCount cp))"
    using m n c by simp
  ultimately show ?thesis by blast
qed

lemma startTheRunners_fails_at:
  assumes "BearerToken cp \<noteq> [] \<or> w_Getenv w \<noteq> []"
    and "\<forall>t name. \<exists>dc. w_InspectContainer w t name = Inr dc"
    and "k < nat (RunnerCount cp)"
    and "\<forall>args. (w_Start w args \<noteq> None) = (args ! 3 = runnerName cp (1 + int k))"
  shows "\<exists>tr' err. startTheRunners w cp tr = Exit tr'
          \<and> attempted tr' = attempted tr @ runnerNames cp 1 (Suc k)
          \<and> last tr' = LoggerFatal err"
proof -
  obtain cp0 where s: "startTheRunners w cp tr = startLoop w (nat (RunnerCount cp)) 1 cp0 tr"
    and rn: "runnerName cp0 = runnerName cp"
    and n: "\<forall>ct n. runnerNames cp0 ct n = runnerNames cp ct n"
    using startTheRunners_loop [OF assms(1)] by blast
  have h: "\<forall>args. (w_Start w args \<noteq> None) = (args ! 3 = runnerName cp0 (1 + int k))"
    unfolding rn by (rule assms(4))
  from startLoop_fails_at [OF assms(2) h assms(3), of tr]
  obtain tr' err where r: "startLoop w (nat (RunnerCount cp)) 1 cp0 tr = Exit tr'"
    and a: "attempted tr' = attempted tr @ runnerNames cp0 1 (Suc k)"
    and l: "last tr' = LoggerFatal err"
    by auto
  have "startTheRunners w cp tr = Exit tr'" using s r by simp
  moreover have "attempted tr' = attempted tr @ runnerNames cp 1 (Suc k)"
    using a n rn by simp
  ultimately show ?thesis using l by blast
qed

lemma digit_chars: "(char_of (49::nat) :: char) = CHR ''1''" "(char_of (50::nat) :: char) = CHR ''2''"
proof -
  have "(of_char (char_of (49::nat) :: char) :: nat) = of_char CHR ''1''" by simp
  then show "(char_of (49::nat) :: char) = CHR ''1''" by (simp only: of_char_eq_iff)
  have "(of_char (char_of (50::nat) :: char) :: nat) = of_char CHR ''2''" by simp
  then show "(char_of (50::nat) :: char) = CHR ''2''" by (simp only: of_char_eq_iff)
qed

lemma sample_names:
  "runnerName sampleParams 1 = ''host1_1''" "runnerName sampleParams 2 = ''host1_2''"
  by (simp_all add: runnerName_def showInt_def showNat.simps sampleParams_def digit_chars)

lemma sample_command:
  "createTheRunnerCommand sampleParams name = Inr (sampleCmd name)"
  by (simp add: createTheRunnerCommand_def sampleCmd_def sampleParams_def)

lemma sample_launch:
  "dockerRunArgs brokenStartDocker sampleParams name (sampleCmd name) = sampleArgs name"
  "dockerRunArgs sampleDocker sampleParams name (sampleCmd name) = sampleArgs name"
  by (simp_all add: dockerRunArgs_def sampleArgs_def sampleParams_def
      brokenStartDocker_def sampleDocker_def proxyEnv_def)

lemma sample_broken_run:
  "startTheRunners brokenStartDocker sampleParams [] =
     Exit [ExecDocker (sampleArgs ''host1_1''), LoggerFatal ''fork/exec /usr/bin/docker: resource temporarily unavailable'']"
proof -
  have f: "w_Start brokenStartDocker (sampleArgs ''host1_1'') = Some ''fork/exec /usr/bin/docker: resource temporarily unavailable''"
    by (simp add: brokenStartDocker_def sampleArgs_def)
  have one: "startTheContainer brokenStartDocker sampleParams ''host1_1'' (sampleCmd ''host1_1'') [] =
      Exit [ExecDocker (sampleArgs ''host1_1''), LoggerFatal ''fork/exec /usr/bin/docker: resource temporarily unavailable'']"
    using startTheContainer_start_fails
      [of brokenStartDocker sampleParams "''host1_1''" "sampleCmd ''host1_1''" _ "[]"] f
    by (simp only: sample_launch) simp
  have n: "nat (RunnerCount sampleParams) = Suc (Suc 0)"
    by (simp add: sampleParams_def)
  have t: "BearerToken sampleParams \<noteq> []"
    by (simp add: sampleParams_def)
  have "startTheRunners brokenStartDocker sampleParams [] =
        startLoop brokenStartDocker (Suc (Suc 0)) 1 sampleParams []"
    using t by (simp only: startTheRunners_def n if_False)
  also have "\<dots> = Exit [ExecDocker (sampleArgs ''host1_1''), LoggerFatal ''fork/exec /usr/bin/docker: resource temporarily unavailable'']"
    by (simp only: startLoop.simps sample_names sample_command one sum.case run.case)
  finally show ?thesis .
qed

text \<open>
  Claim C3, as stated, fails: two runners are requested and \<open>docker run\<close> cannot be
  started for the first. The process ends there; the only launch attempted is \<open>host1_1\<close>.
\<close>

theorem startTheRunners_names_counterexample:
  "RunnerCount sampleParams = 2 \<and>
   attempted (traceOf (startTheRunners brokenStartDocker sampleParams [])) = [''host1_1'']"
  by (simp add: sample_broken_run attempted_def) (simp add: sampleArgs_def sampleParams_def)

text \<open>
  Claim C3, amended. With a bearer token in the parameters or in the environment and
  inspections that succeed: when every \<open>docker run\<close> starts, \<open>startTheRunners\<close> returns
  after attempting the launches of exactly the names numbered 1 to \<open>RunnerCount\<close>, in
  this order, and records a handle for each; when it is the launch numbered \<open>k + 1\<close>
  that cannot be started, the process ends after the attempts numbered 1 to \<open>k + 1\<close>.
  The names are the base name, an underscore and the number; there are as many as
  requested, and they are distinct.
\<close>

theorem startTheRunners_names:
  assumes "BearerToken cp \<noteq> [] \<or> w_Getenv w \<noteq> []"
    and "\<forall>t name. \<exists>dc. w_InspectContainer w t name = Inr dc"
  shows "((\<forall>args. w_Start w args = None) \<longrightarrow>
            (\<exists>cp' tr'. startTheRunners w cp tr = Cont cp' tr'
               \<and> attempted tr' = attempted tr @ runnerNames cp 1 (nat (RunnerCount cp))
               \<and> map containerName (containers cp') =
                   map containerName (containers cp) @ runnerNames cp 1 (nat (RunnerCount cp))))
       \<and> (\<forall>k. k < nat (RunnerCount cp)
              \<and> (\<forall>args. (w_Start w args \<noteq> None) = (args ! 3 = runnerName cp (1 + int k))) \<longrightarrow>
            (\<exists>tr'. startTheRunners w cp tr = Exit tr'
               \<and> attempted tr' = attempted tr @ runnerNames cp 1 (Suc k)))
       \<and> length (runnerNames cp 1 n) = n
       \<and> (\<forall>j<n. runnerNames cp 1 n ! j = Basename cp @ ''_'' @ showInt (1 + int j))
       \<and> distinct (runnerNames cp 1 n)"
proof (intro conjI allI impI)
  assume "\<forall>args. w_Start w args = None"
  then show "\<exists>cp' tr'. startTheRunners w cp tr = Cont cp' tr'
               \<and> attempted tr' = attempted tr @ runnerNames cp 1 (nat (RunnerCount cp))
               \<and> map containerName (containers cp') =
                   map containerName (containers cp) @ runnerNames cp 1 (nat (RunnerCount cp))"
    using startTheRunners_ok [OF assms(1) _ assms(2)] by blast
next
  fix k
  assume a: "k < nat (RunnerCount cp)
              \<and> (\<forall>args. (w_Start w args \<noteq> None) = (args ! 3 = runnerName cp (1 + int k)))"
  then have k: "k < nat (RunnerCount cp)"
    and f: "\<forall>args. (w_Start w args \<noteq> None) = (args ! 3 = runnerName cp (1 + int k))"
    by blast+
  from startTheRunners_fails_at [OF assms k f, of tr]
  show "\<exists>tr'. startTheRunners w cp tr = Exit tr'
               \<and> attempted tr' = attempted tr @ runnerNames cp 1 (Suc k)"
    by blast
next
  show "length (runnerNames cp 1 n) = n" by simp
next
  fix j assume "j < n"
  then show "runnerNames cp 1 n ! j = Basename cp @ ''_'' @ showInt (1 + int j)"
    by (simp add: runnerNames_nth runnerName_def)
next
  show "distinct (runnerNames cp 1 n)" by (rule runnerNames_distinct) simp
qed

theorem startTheRunners_names_witness:
  "BearerToken sampleParams \<noteq> [] \<and>
   (\<forall>t name. \<exists>dc. w_InspectContainer sampleDocker t name = Inr dc) \<and>
   (\<forall>args. w_Start sampleDocker args = None) \<and>
   nat (RunnerCount sampleParams) = Suc (Suc 0) \<and>
   attempted (traceOf (startTheRunners sampleDocker sampleParams [])) = [''host1_1'', ''host1_2'']"
proof -
  have t: "BearerToken sampleParams \<noteq> [] \<or> w_Getenv sampleDocker \<noteq> []"
    by (simp add: sampleParams_def)
  have i: "\<forall>t name. \<exists>dc. w_InspectContainer sampleDocker t name = Inr dc"
    by (simp add: sampleDocker_def)
  have s: "\<forall>args. w_Start sampleDocker args = None"
    by (simp add: sampleDocker_def)
  have n: "nat (RunnerCount sampleParams) = Suc (Suc 0)"
    by (simp add: sampleParams_def)
  from startTheRunners_names [OF t i, of "[]" 0] s
  obtain cp' tr' where r: "startTheRunners sampleDocker sampleParams [] = Cont cp' tr'"
    and a: "attempted tr' = attempted [] @ runnerNames sampleParams 1 (nat (RunnerCount sampleParams))"
    by blast
  from a have "attempted tr' = [''host1_1'', ''host1_2'']"
    by (simp add: n sample_names)
  with r have "attempted (traceOf (startTheRunners sampleDocker sampleParams [])) = [''host1_1'', ''host1_2'']"
    by simp
  with t i s n show ?thesis by (simp add: sampleParams_def)
qed

text \<open>
  Claim C1, as stated, fails: the launch of \<open>host1_1\<close> cannot be started, the launch of
  \<open>host1_2\<close> could be. The error is logged with \<open>Logger.Fatal\<close> and the process ends:
  the second instance is never attempted.
\<close>

theorem startTheRunners_launch_failure_counterexample:
  "RunnerCount sampleParams = 2 \<and>
   w_Start brokenStartDocker (sampleArgs ''host1_1'') = Some ''fork/exec /usr/bin/docker: resource temporarily unavailable'' \<and>
   w_Start brokenStartDocker (sampleArgs ''host1_2'') = None \<and>
   startTheRunners brokenStartDocker sampleParams [] =
     Exit [ExecDocker (sampleArgs ''host1_1''), LoggerFatal ''fork/exec /usr/bin/docker: resource temporarily unavailable'']"
  by (simp add: sample_broken_run) (simp add: brokenStartDocker_def sampleArgs_def sampleParams_def)

text \<open>
  Claim C1, amended. The controller ends the process when no bearer token is supplied;
  when the selection options conflict or are absent; when no runner image is in the
  local repository; and also when the launch of one container fails: a \<open>docker run\<close>
  that cannot be started, or a failed inspection of the started container, is logged with
  \<open>Logger.Fatal\<close>. When the launch numbered \<open>k + 1\<close> cannot be started, the run ends with
  that fatal message and the later instances are not attempted. With a token, launches
  that start and inspections that succeed, \<open>startTheRunners\<close> returns.
\<close>

theorem startTheRunners_fatal:
  "(BearerToken cp = [] \<and> w_Getenv w = [] \<longrightarrow>
      startTheRunners w cp tr =
        Exit (tr @ [LoggerFatal ''Unable to start runner(s) because runner bearer token was not supplied.'']))
 \<and> (\<not> ShutdownFlag cp \<and>
      (AllOption cp \<and> (OrgList cp \<noteq> [] \<or> Workflows cp \<noteq> [] \<or> AppNames cp \<noteq> []) \<or>
       \<not> AllOption cp \<and> OrgList cp = [] \<and> Workflows cp = [] \<and> AppNames cp = []) \<longrightarrow>
      (\<exists>msg. runWith w fuel False cp [] tr = Some (Exit (tr @ [LoggerFatal msg]))))
 \<and> (\<forall>images. InstanceName cp \<noteq> [] \<and> w_NewClient w (DockerEndpoint cp) = None
        \<and> w_ListImages w = Inr images \<and> fst (scanImages images ([], 0)) = [] \<longrightarrow>
      RunDockerController w fuel statusOnly cp =
        Some (Exit [ListImages, LoggerFatal
          ''No external runner image exists in your local Docker repository. Use wercker runner configure command.'']))
 \<and> (\<forall>name cmd err. w_Start w (dockerRunArgs w cp name cmd) = Some err \<longrightarrow>
      startTheContainer w cp name cmd tr =
        Exit (tr @ [ExecDocker (dockerRunArgs w cp name cmd), LoggerFatal err]))
 \<and> (\<forall>name cmd err. w_Start w (dockerRunArgs w cp name cmd) = None
        \<and> w_InspectContainer w (length tr + 4) name = Inl err \<longrightarrow>
      (\<exists>tr'. startTheContainer w cp name cmd tr = Exit (tr' @ [LoggerFatal err])))
 \<and> (\<forall>k. (BearerToken cp \<noteq> [] \<or> w_Getenv w \<noteq> [])
        \<and> (\<forall>t name. \<exists>dc. w_InspectContainer w t name = Inr dc)
        \<and> k < nat (RunnerCount cp)
        \<and> (\<forall>args. (w_Start w args \<noteq> None) = (args ! 3 = runnerName cp (1 + int k))) \<longrightarrow>
      (\<exists>tr' err. startTheRunners w cp tr = Exit tr' \<and> last tr' = LoggerFatal err
         \<and> attempted tr' = attempted tr @ runnerNames cp 1 (Suc k)))
 \<and> ((BearerToken cp \<noteq> [] \<or> w_Getenv w \<noteq> [])
        \<and> (\<forall>args. w_Start w args = None)
        \<and> (\<forall>t name. \<exists>dc. w_InspectContainer w t name = Inr dc) \<longrightarrow>
      (\<exists>cp' tr'. startTheRunners w cp tr = Cont cp' tr'
         \<and> attempted tr' = attempted tr @ runnerNames cp 1 (nat (RunnerCount cp))))"
proof (intro conjI allI impI)
  assume "BearerToken cp = [] \<and> w_Getenv w = []"
  then show "startTheRunners w cp tr =
        Exit (tr @ [LoggerFatal ''Unable to start runner(s) because runner bearer token was not supplied.''])"
    by (simp add: startTheRunners_def)
next
  assume a: "\<not> ShutdownFlag cp \<and>
      (AllOption cp \<and> (OrgList cp \<noteq> [] \<or> Workflows cp \<noteq> [] \<or> AppNames cp \<noteq> []) \<or>
       \<not> AllOption cp \<and> OrgList cp = [] \<and> Workflows cp = [] \<and> AppNames cp = [])"
  then obtain msg where "checkAllOption cp = Some msg"
    by (auto simp: checkAllOption_def)
  with a have "runWith w fuel False cp [] tr = Some (Exit (tr @ [LoggerFatal msg]))"
    by (simp add: runWith_def)
  then show "\<exists>msg. runWith w fuel False cp [] tr = Some (Exit (tr @ [LoggerFatal msg]))" ..
next
  fix images
  assume "InstanceName cp \<noteq> [] \<and> w_NewClient w (DockerEndpoint cp) = None
        \<and> w_ListImages w = Inr images \<and> fst (scanImages images ([], 0)) = []"
  then show "RunDockerController w fuel statusOnly cp =
        Some (Exit [ListImages, LoggerFatal
          ''No external runner image exists in your local Docker repository. Use wercker runner configure command.''])"
    by (simp add: RunDockerController_def getLocalImage_def)
next
  fix name cmd err
  assume "w_Start w (dockerRunArgs w cp name cmd) = Some err"
  then show "startTheContainer w cp name cmd tr =
        Exit (tr @ [ExecDocker (dockerRunArgs w cp name cmd), LoggerFatal err])"
    by (rule startTheContainer_start_fails)
next
  fix name cmd err
  assume "w_Start w (dockerRunArgs w cp name cmd) = None
        \<and> w_InspectContainer w (length tr + 4) name = Inl err"
  then have "startTheContainer w cp name cmd tr =
     Exit ((tr @ [ExecDocker (dockerRunArgs w cp name cmd),
                 LoggerPrint (''External runner '' @ name @ '' has started.''),
                 LoggerDebug (''Docker image: '' @ ImageName cp),
                 Sleep 1000, InspectContainer name]) @ [LoggerFatal err])"
    using startTheContainer_inspect_fails [of w cp name cmd tr err] by simp
  then show "\<exists>tr'. startTheContainer w cp name cmd tr = Exit (tr' @ [LoggerFatal err])" ..
next
  fix k
  assume a: "(BearerToken cp \<noteq> [] \<or> w_Getenv w \<noteq> [])
        \<and> (\<forall>t name. \<exists>dc. w_InspectContainer w t name = Inr dc)
        \<and> k < nat (RunnerCount cp)
        \<and> (\<forall>args. (w_Start w args \<noteq> None) = (args ! 3 = runnerName cp (1 + int k)))"
  then have t: "BearerToken cp \<noteq> [] \<or> w_Getenv w \<noteq> []"
    and i: "\<forall>t name. \<exists>dc. w_InspectContainer w t name = Inr dc"
    and k: "k < nat (RunnerCount cp)"
    and f: "\<forall>args. (w_Start w args \<noteq> None) = (args ! 3 = runnerName cp (1 + int k))"
    by blast+
  from startTheRunners_fails_at [OF t i k f, of tr]
  show "\<exists>tr' err. startTheRunners w cp tr = Exit tr' \<and> last tr' = LoggerFatal err
         \<and> attempted tr' = attempted tr @ runnerNames cp 1 (Suc k)"
    by blast
next
  assume a: "(BearerToken cp \<noteq> [] \<or> w_Getenv w \<noteq> [])
        \<and> (\<forall>args. w_Start w args = None)
        \<and> (\<forall>t name. \<exists>dc. w_InspectContainer w t name = Inr dc)"
  then have t: "BearerToken cp \<noteq> [] \<or> w_Getenv w \<noteq> []"
    and s: "\<forall>args. w_Start w args = None"
    and i: "\<forall>t name. \<exists>dc. w_InspectContainer w t name = Inr dc"
    by blast+
  from startTheRunners_ok [OF t s i, of tr]
  show "\<exists>cp' tr'. startTheRunners w cp tr = Cont cp' tr'
         \<and> attempted tr' = attempted tr @ runnerNames cp 1 (nat (RunnerCount cp))"
    by blast
qed

theorem startTheRunners_fatal_witness:
  "BearerToken sampleParams \<noteq> [] \<and>
   (\<forall>t name. \<exists>dc. w_InspectContainer brokenStartDocker t name = Inr dc) \<and>
   0 < nat (RunnerCount sampleParams) \<and>
   (\<forall>args. (w_Start brokenStartDocker args \<noteq> None) = (args ! 3 = runnerName sampleParams (1 + int 0))) \<and>
   (\<exists>tr' err. startTheRunners brokenStartDocker sampleParams [] = Exit tr' \<and> last tr' = LoggerFatal err
      \<and> attempted tr' = [''host1_1'']) \<and>
   BearerToken (sampleParams\<lparr>BearerToken := []\<rparr>) = [] \<and> w_Getenv sampleDocker = [] \<and>
   startTheRunners sampleDocker (sampleParams\<lparr>BearerToken := []\<rparr>) [] =
     Exit [LoggerFatal ''Unable to start runner(s) because runner bearer token was not supplied.'']"
proof -
  have t: "BearerToken sampleParams \<noteq> []" by (simp add: sampleParams_def)
  have i: "\<forall>t name. \<exists>dc. w_InspectContainer brokenStartDocker t name = Inr dc"
    by (simp add: brokenStartDocker_def sampleDocker_def)
  have k: "0 < nat (RunnerCount sampleParams)" by (simp add: sampleParams_def)
  have f: "\<forall>args. (w_Start brokenStartDocker args \<noteq> None) =
             (args ! 3 = runnerName sampleParams (1 + int 0))"
    by (simp add: brokenStartDocker_def sample_names)
  have e: "BearerToken (sampleParams\<lparr>BearerToken := []\<rparr>) = []" "w_Getenv sampleDocker = []"
    by (simp_all add: sampleDocker_def)
  note inst = startTheRunners_fatal [of "sampleParams" brokenStartDocker "[]"]
  from inst t i k f
  have a: "\<exists>tr' err. startTheRunners brokenStartDocker sampleParams [] = Exit tr' \<and> last tr' = LoggerFatal err
      \<and> attempted tr' = attempted [] @ runnerNames sampleParams 1 (Suc 0)"
    by blast
  have n: "attempted [] @ runnerNames sampleParams 1 (Suc 0) = [''host1_1'']"
    by (simp add: sample_names)
  from startTheRunners_fatal [of "sampleParams\<lparr>BearerToken := []\<rparr>" sampleDocker "[]"] e
  have b: "startTheRunners sampleDocker (sampleParams\<lparr>BearerToken := []\<rparr>) [] =
     Exit [LoggerFatal ''Unable to start runner(s) because runner bearer token was not supplied.'']"
    by simp
  from a have a': "\<exists>tr' err. startTheRunners brokenStartDocker sampleParams [] = Exit tr' \<and> last tr' = LoggerFatal err
      \<and> attempted tr' = [''host1_1'']"
    by (simp only: n)
  from t i k f a' e b show ?thesis by blast
qed

end
